theory Spec2Isabelle
  imports Complex_Main "HOL-Library.AList" "HOL-Library.Char_ord" "HOL-Library.List_Lexorder"
    "HOL-Library.Product_Lexorder" "HOL-Library.Multiset"
begin

section \<open>Python values and the built-ins the program uses\<close>

text \<open>
  The program keeps its data in plain Python containers: an event is a dict with string
  keys, the event sequence is a list of such dicts, and whatever \<^verbatim>\<open>json.load\<close> returns
  is stored as it is. The values are therefore modelled as the JSON-shaped fragment of
  Python's values. A dict is an association list in insertion order. A Python float is
  a real number here: rounding, infinities and NaN are outside the model.
\<close>

datatype pyval =
    PNone
  | PBool bool
  | PInt int
  | PFloat real
  | PStr string
  | PList "pyval list"
  | PDict "(string \<times> pyval) list"

datatype error =
    AttributeError
  | TypeError
  | KeyError
  | ValueError
  | ZeroDivisionError
  | FileNotFoundError
  | PermissionError
  | JSONDecodeError
  | DeviceError

text \<open>Truth value of an object, as \<^verbatim>\<open>if x:\<close> and \<^verbatim>\<open>not x\<close> take it.\<close>

fun py_truthy :: "pyval \<Rightarrow> bool" where
  "py_truthy PNone = False"
| "py_truthy (PBool b) = b"
| "py_truthy (PInt i) = (i \<noteq> 0)"
| "py_truthy (PFloat r) = (r \<noteq> 0)"
| "py_truthy (PStr s) = (s \<noteq> [])"
| "py_truthy (PList xs) = (xs \<noteq> [])"
| "py_truthy (PDict kvs) = (kvs \<noteq> [])"

text \<open>\<^verbatim>\<open>d.get(k, default)\<close>: only a dict has the method.\<close>

fun py_get :: "pyval \<Rightarrow> string \<Rightarrow> pyval \<Rightarrow> error + pyval" where
  "py_get (PDict kvs) k dflt = Inr (case map_of kvs k of None \<Rightarrow> dflt | Some v \<Rightarrow> v)"
| "py_get _ k dflt = Inl AttributeError"

text \<open>\<^verbatim>\<open>d[k]\<close> with a string key.\<close>

fun py_item :: "pyval \<Rightarrow> string \<Rightarrow> error + pyval" where
  "py_item (PDict kvs) k = (case map_of kvs k of None \<Rightarrow> Inl KeyError | Some v \<Rightarrow> Inr v)"
| "py_item _ k = Inl TypeError"

text \<open>\<^verbatim>\<open>for x in v\<close>: the elements of a list, the keys of a dict, the characters of a string.\<close>

fun py_iter :: "pyval \<Rightarrow> error + pyval list" where
  "py_iter (PList xs) = Inr xs"
| "py_iter (PDict kvs) = Inr (map (\<lambda>kv. PStr (fst kv)) kvs)"
| "py_iter (PStr s) = Inr (map (\<lambda>c. PStr [c]) s)"
| "py_iter _ = Inl TypeError"

text \<open>Rounding towards zero, as \<^verbatim>\<open>int\<close> does on a float.\<close>

definition trunc :: "real \<Rightarrow> int" where
  "trunc r = (if 0 \<le> r then \<lfloor>r\<rfloor> else \<lceil>r\<rceil>)"

text \<open>
  \<^verbatim>\<open>int(v)\<close> and \<^verbatim>\<open>float(v)\<close>. How a string is read as a number is the interpreter's
  business and is taken as a parameter (\<open>None\<close>: the string is not a number).
\<close>

fun py_int :: "(string \<Rightarrow> int option) \<Rightarrow> pyval \<Rightarrow> error + int" where
  "py_int ios (PInt i) = Inr i"
| "py_int ios (PBool b) = Inr (if b then 1 else 0)"
| "py_int ios (PFloat r) = Inr (trunc r)"
| "py_int ios (PStr s) = (case ios s of None \<Rightarrow> Inl ValueError | Some i \<Rightarrow> Inr i)"
| "py_int ios _ = Inl TypeError"

fun py_float :: "(string \<Rightarrow> real option) \<Rightarrow> pyval \<Rightarrow> error + real" where
  "py_float fos (PInt i) = Inr (real_of_int i)"
| "py_float fos (PBool b) = Inr (if b then 1 else 0)"
| "py_float fos (PFloat r) = Inr r"
| "py_float fos (PStr s) = (case fos s of None \<Rightarrow> Inl ValueError | Some r \<Rightarrow> Inr r)"
| "py_float fos _ = Inl TypeError"

text \<open>True division raises on a zero divisor.\<close>

definition py_truediv :: "real \<Rightarrow> real \<Rightarrow> error + real" where
  "py_truediv a b = (if b = 0 then Inl ZeroDivisionError else Inr (a / b))"

text \<open>Sequencing: the first exception ends the evaluation.\<close>

definition bind_err :: "error + 'a \<Rightarrow> ('a \<Rightarrow> error + 'b) \<Rightarrow> error + 'b" where
  "bind_err r f = (case r of Inl e \<Rightarrow> Inl e | Inr v \<Rightarrow> f v)"


section \<open>The macro engine: recording\<close>

text \<open>
  A key delivered by the listener is either a \<^verbatim>\<open>KeyCode\<close>, which has a \<^verbatim>\<open>char\<close>
  attribute (possibly \<^verbatim>\<open>None\<close>), or a member of the \<^verbatim>\<open>Key\<close> enumeration, which has
  a \<^verbatim>\<open>name\<close> and no \<^verbatim>\<open>char\<close>.
\<close>

datatype pykey = KeyCode "string option" | Key string

text \<open>
  The fields of \<^verbatim>\<open>Macro\<close>. The listeners, the lock and the controllers are not state
  of their own here: what the lock protects is a step of a session further down, and the
  device is the output log below.
  \<open>abort_in\<close> is the environment of a playback: \<open>Some k\<close> says that another thread calls
  \<^verbatim>\<open>abort_playback\<close> after \<open>k\<close> more polls of the stop flag, \<open>None\<close> that nobody does.
\<close>

record macro =
  events :: pyval
  recording :: bool
  paused :: bool
  last_ts :: "real option"
  stop_flag :: bool
  control_keys :: "pykey list"
  abort_in :: "nat option"

definition Macro_init :: macro where
  "Macro_init = \<lparr> events = PList [], recording = False, paused = False, last_ts = None,
     stop_flag = False, control_keys = [], abort_in = None \<rparr>"

text \<open>Every function that reads the clock takes the reading \<open>now\<close> as an argument.\<close>

definition Macro_start_recording :: "real \<Rightarrow> macro \<Rightarrow> macro" where
  "Macro_start_recording now m =
     (if recording m then m
      else m\<lparr> events := PList [], stop_flag := False, recording := True, paused := False,
              last_ts := Some now \<rparr>)"

definition Macro_stop_recording :: "macro \<Rightarrow> macro" where
  "Macro_stop_recording m = (if \<not> recording m then m else m\<lparr> recording := False \<rparr>)"

definition Macro_pause_toggle :: "real \<Rightarrow> macro \<Rightarrow> macro" where
  "Macro_pause_toggle now m =
     (if recording m then m\<lparr> paused := \<not> paused m, last_ts := Some now \<rparr> else m)"

text \<open>
  \<^verbatim>\<open>_dt\<close>: the delay since the last timestamp, and the timestamp moved to \<open>now\<close>.
  The test \<^verbatim>\<open>if self._last_ts\<close> is false for \<^verbatim>\<open>None\<close> and for a timestamp of zero;
  the delay is then the integer 0.
\<close>

definition Macro_dt :: "real \<Rightarrow> macro \<Rightarrow> pyval \<times> macro" where
  "Macro_dt now m =
     ((case last_ts m of
         None \<Rightarrow> PInt 0
       | Some l \<Rightarrow> if l \<noteq> 0 then PFloat (now - l) else PInt 0),
      m\<lparr> last_ts := Some now \<rparr>)"

text \<open>\<^verbatim>\<open>_rec\<close>: \<^verbatim>\<open>append\<close> exists on a list only.\<close>

definition Macro_rec :: "pyval \<Rightarrow> macro \<Rightarrow> macro \<times> error option" where
  "Macro_rec item m =
     (if \<not> recording m \<or> paused m then (m, None)
      else (case events m of
              PList xs \<Rightarrow> (m\<lparr> events := PList (xs @ [item]) \<rparr>, None)
            | _ \<Rightarrow> (m, Some AttributeError)))"

text \<open>
  The callbacks. The argument \<^verbatim>\<open>self._dt()\<close> is evaluated while the dict is built,
  before \<^verbatim>\<open>_rec\<close> looks at \<^verbatim>\<open>recording\<close> and \<^verbatim>\<open>paused\<close>.
\<close>

definition Macro_on_move :: "real \<Rightarrow> int \<Rightarrow> int \<Rightarrow> macro \<Rightarrow> macro \<times> error option" where
  "Macro_on_move now x y m =
     (case Macro_dt now m of (d, m1) \<Rightarrow>
        Macro_rec (PDict [(''t'', d), (''type'', PStr ''move''), (''x'', PInt x), (''y'', PInt y)]) m1)"

definition Macro_on_click ::
  "real \<Rightarrow> int \<Rightarrow> int \<Rightarrow> string \<Rightarrow> bool \<Rightarrow> macro \<Rightarrow> macro \<times> error option" where
  "Macro_on_click now x y button_name pressed m =
     (case Macro_dt now m of (d, m1) \<Rightarrow>
        Macro_rec (PDict [(''t'', d), (''type'', PStr ''click''), (''x'', PInt x), (''y'', PInt y),
                          (''button'', PStr button_name), (''pressed'', PBool pressed)]) m1)"

definition Macro_on_scroll ::
  "real \<Rightarrow> int \<Rightarrow> int \<Rightarrow> int \<Rightarrow> int \<Rightarrow> macro \<Rightarrow> macro \<times> error option" where
  "Macro_on_scroll now x y dx dy m =
     (case Macro_dt now m of (d, m1) \<Rightarrow>
        Macro_rec (PDict [(''t'', d), (''type'', PStr ''scroll''), (''x'', PInt x), (''y'', PInt y),
                          (''dx'', PInt dx), (''dy'', PInt dy)]) m1)"

text \<open>The two fields a key contributes: \<^verbatim>\<open>kind\<close> and \<^verbatim>\<open>key\<close>.\<close>

fun key_fields :: "pykey \<Rightarrow> string \<times> pyval" where
  "key_fields (KeyCode None) = (''char'', PNone)"
| "key_fields (KeyCode (Some c)) = (''char'', PStr c)"
| "key_fields (Key name) = (''special'', PStr name)"

definition Macro_on_key :: "string \<Rightarrow> real \<Rightarrow> pykey \<Rightarrow> macro \<Rightarrow> macro \<times> error option" where
  "Macro_on_key act now key m =
     (if key \<in> set (control_keys m) then (m, None)
      else (case key_fields key of (kind, k) \<Rightarrow>
        (case Macro_dt now m of (d, m1) \<Rightarrow>
           Macro_rec (PDict [(''t'', d), (''type'', PStr ''key''), (''action'', PStr act),
                             (''kind'', PStr kind), (''key'', k)]) m1)))"

definition Macro_on_press :: "real \<Rightarrow> pykey \<Rightarrow> macro \<Rightarrow> macro \<times> error option" where
  "Macro_on_press = Macro_on_key ''press''"

definition Macro_on_release :: "real \<Rightarrow> pykey \<Rightarrow> macro \<Rightarrow> macro \<times> error option" where
  "Macro_on_release = Macro_on_key ''release''"

text \<open>
  A notification is one call of a callback by a listener thread, with the arguments the
  listener passes.
\<close>

datatype notification =
    OnMove int int
  | OnClick int int string bool
  | OnScroll int int int int
  | OnPress pykey
  | OnRelease pykey

fun notify :: "real \<Rightarrow> notification \<Rightarrow> macro \<Rightarrow> macro \<times> error option" where
  "notify now (OnMove x y) m = Macro_on_move now x y m"
| "notify now (OnClick x y b p) m = Macro_on_click now x y b p m"
| "notify now (OnScroll x y dx dy) m = Macro_on_scroll now x y dx dy m"
| "notify now (OnPress k) m = Macro_on_press now k m"
| "notify now (OnRelease k) m = Macro_on_release now k m"

text \<open>A key notification is filtered out when the key is one of the control keys.\<close>

fun filtered :: "macro \<Rightarrow> notification \<Rightarrow> bool" where
  "filtered m (OnPress k) = (k \<in> set (control_keys m))"
| "filtered m (OnRelease k) = (k \<in> set (control_keys m))"
| "filtered m _ = False"

text \<open>The record a notification hands to \<^verbatim>\<open>_rec\<close>, given the delay.\<close>

definition notify_item :: "notification \<Rightarrow> pyval \<Rightarrow> pyval" where
  "notify_item n d =
     (case n of
        OnMove x y \<Rightarrow>
          PDict [(''t'', d), (''type'', PStr ''move''), (''x'', PInt x), (''y'', PInt y)]
      | OnClick x y b p \<Rightarrow>
          PDict [(''t'', d), (''type'', PStr ''click''), (''x'', PInt x), (''y'', PInt y),
                 (''button'', PStr b), (''pressed'', PBool p)]
      | OnScroll x y dx dy \<Rightarrow>
          PDict [(''t'', d), (''type'', PStr ''scroll''), (''x'', PInt x), (''y'', PInt y),
                 (''dx'', PInt dx), (''dy'', PInt dy)]
      | OnPress k \<Rightarrow>
          PDict [(''t'', d), (''type'', PStr ''key''), (''action'', PStr ''press''),
                 (''kind'', PStr (fst (key_fields k))), (''key'', snd (key_fields k))]
      | OnRelease k \<Rightarrow>
          PDict [(''t'', d), (''type'', PStr ''key''), (''action'', PStr ''release''),
                 (''kind'', PStr (fst (key_fields k))), (''key'', snd (key_fields k))])"

text \<open>
  The first half of a callback, which runs without the lock: the control-key test and
  the building of the record, \<^verbatim>\<open>_dt\<close> included. \<open>now\<close> is the reading
  \<^verbatim>\<open>time.time()\<close> gave. The second half is \<^verbatim>\<open>_rec\<close>, which takes the lock.
\<close>

definition build :: "real \<Rightarrow> notification \<Rightarrow> macro \<Rightarrow> pyval option \<times> macro" where
  "build now n m =
     (if filtered m n then (None, m)
      else (case Macro_dt now m of (d, m1) \<Rightarrow> (Some (notify_item n d), m1)))"

text \<open>
  The callbacks run on the two listener threads, \<^verbatim>\<open>pause_toggle\<close>,
  \<^verbatim>\<open>start_recording\<close> and \<^verbatim>\<open>stop_recording\<close> on the hotkey or interface thread.
  Only the bodies of \<^verbatim>\<open>_rec\<close> and of the three control calls hold the lock, so another
  thread can run between the two halves of a callback, and between the clock reading and
  \<^verbatim>\<open>_dt\<close>. A session is the sequence of the steps in the order they execute, each with
  the clock reading it uses; a callback contributes the step that builds its record and,
  later, the step that appends it. Each listener holds the record it has built and not
  yet appended.
\<close>

datatype listener = MouseListener | KeyboardListener

datatype action =
    StartRecording
  | StopRecording
  | PauseToggle
  | Build listener notification
  | Append listener

fun step ::
  "macro \<times> (listener \<Rightarrow> pyval option) \<Rightarrow> real \<times> action \<Rightarrow> macro \<times> (listener \<Rightarrow> pyval option)"
where
  "step (m, held) (now, StartRecording) = (Macro_start_recording now m, held)"
| "step (m, held) (now, StopRecording) = (Macro_stop_recording m, held)"
| "step (m, held) (now, PauseToggle) = (Macro_pause_toggle now m, held)"
| "step (m, held) (now, Build l n) =
     (case build now n m of (item, m1) \<Rightarrow> (m1, held(l := item)))"
| "step (m, held) (now, Append l) =
     (case held l of
        None \<Rightarrow> (m, held)
      | Some item \<Rightarrow> (fst (Macro_rec item m), held(l := None)))"

definition run :: "macro \<Rightarrow> (real \<times> action) list \<Rightarrow> macro" where
  "run m tr = fst (foldl step (m, \<lambda>l. None) tr)"

text \<open>The delay an event record carries.\<close>

fun delay_of :: "pyval \<Rightarrow> real option" where
  "delay_of (PDict kvs) =
     (case map_of kvs ''t'' of
        Some (PFloat d) \<Rightarrow> Some d
      | Some (PInt i) \<Rightarrow> Some (real_of_int i)
      | _ \<Rightarrow> None)"
| "delay_of _ = None"

text \<open>
  A session with a pause from 12 to 20. A move arrives while the recorder is paused: its
  callback builds the record at 19, the hotkey thread resumes the recorder at 20, and
  then the callback appends.
\<close>

definition resumed_too_soon :: "(real \<times> action) list" where
  "resumed_too_soon =
     [(10, StartRecording), (12, PauseToggle), (19, Build MouseListener (OnMove 7 8)),
      (20, PauseToggle), (20, Append MouseListener)]"

text \<open>
  A session without a pause in which the mouse callback reads the clock at 11 and runs
  \<^verbatim>\<open>_dt\<close> only after a key callback, which read the clock at 12, has run and appended.
\<close>

definition racing_listeners :: "(real \<times> action) list" where
  "racing_listeners =
     [(10, StartRecording), (12, Build KeyboardListener (OnPress (KeyCode (Some ''a'')))),
      (12, Append KeyboardListener), (11, Build MouseListener (OnMove 1 1)),
      (11, Append MouseListener)]"


section \<open>Files, devices and the libraries the program calls\<close>

text \<open>
  A path holds nothing, a regular file with its text, or a file that cannot be opened.
\<close>

datatype node = Regular string | Denied

text \<open>What playback does to the outside: it sleeps and it drives the pointer and the keyboard.\<close>

datatype keyobj = KChar pyval | KNamed string

datatype command =
    Sleep real
  | SetPos int int
  | MousePress string
  | MouseRelease string
  | MouseScroll int int
  | KeyPress keyobj
  | KeyRelease keyobj

record world =
  files :: "string \<Rightarrow> node option"
  out :: "command list"

text \<open>A naive \<^verbatim>\<open>datetime\<close>: calendar fields without a time zone.\<close>

record datetime =
  year :: nat
  month :: nat
  day :: nat
  hour :: nat
  minute :: nat
  second :: nat
  microsecond :: nat

text \<open>
  The libraries are not part of the repository and are parameters of the model:
  the JSON encoder in the two layouts the program asks for and the JSON decoder
  (\<open>None\<close>: the text is not JSON), the reading of a string as a number, the members of
  \<^verbatim>\<open>mouse.Button\<close> and \<^verbatim>\<open>keyboard.Key\<close> by name, \<^verbatim>\<open>datetime.fromisoformat\<close>, and
  which injections the input device refuses.
\<close>

record pylib =
  json_dumps_compact :: "pyval \<Rightarrow> string"
  json_dumps_indent :: "pyval \<Rightarrow> string"
  json_loads :: "string \<Rightarrow> pyval option"
  int_of_str :: "string \<Rightarrow> int option"
  float_of_str :: "string \<Rightarrow> real option"
  mouse_Button :: "string \<Rightarrow> string option"
  keyboard_Key :: "string \<Rightarrow> string option"
  fromisoformat :: "string \<Rightarrow> datetime option"
  device_fails :: "command \<Rightarrow> bool"

definition read_text :: "world \<Rightarrow> string \<Rightarrow> error + string" where
  "read_text w path =
     (case files w path of
        None \<Rightarrow> Inl FileNotFoundError
      | Some Denied \<Rightarrow> Inl PermissionError
      | Some (Regular s) \<Rightarrow> Inr s)"

definition write_text :: "string \<Rightarrow> string \<Rightarrow> world \<Rightarrow> error + world" where
  "write_text path s w =
     (case files w path of
        Some Denied \<Rightarrow> Inl PermissionError
      | _ \<Rightarrow> Inr (w\<lparr> files := (files w)(path \<mapsto> Regular s) \<rparr>))"


section \<open>The macro engine: persistence\<close>

definition Macro_save :: "pylib \<Rightarrow> string \<Rightarrow> macro \<Rightarrow> world \<Rightarrow> world \<times> error option" where
  "Macro_save lib path m w =
     (case write_text path (json_dumps_compact lib (events m)) w of
        Inl e \<Rightarrow> (w, Some e)
      | Inr w' \<Rightarrow> (w', None))"

text \<open>
  \<^verbatim>\<open>self.events = json.load(f)\<close>: the assignment is the last thing that happens, and
  nothing looks at the decoded value.
\<close>

definition Macro_load :: "pylib \<Rightarrow> string \<Rightarrow> world \<Rightarrow> macro \<Rightarrow> macro \<times> error option" where
  "Macro_load lib path w m =
     (case read_text w path of
        Inl e \<Rightarrow> (m, Some e)
      | Inr s \<Rightarrow>
          (case json_loads lib s of
             None \<Rightarrow> (m, Some JSONDecodeError)
           | Some v \<Rightarrow> (m\<lparr> events := v \<rparr>, None)))"


section \<open>The macro engine: playback\<close>

definition Macro_abort_playback :: "macro \<Rightarrow> macro" where
  "Macro_abort_playback m = m\<lparr> stop_flag := True \<rparr>"

text \<open>
  \<^verbatim>\<open>_stop_flag.is_set()\<close>, together with what the other threads did since the last poll.
\<close>

definition is_set :: "macro \<Rightarrow> bool \<times> macro" where
  "is_set m =
     (case abort_in m of
        None \<Rightarrow> (stop_flag m, m)
      | Some 0 \<Rightarrow> (True, m\<lparr> stop_flag := True, abort_in := None \<rparr>)
      | Some (Suc k) \<Rightarrow> (stop_flag m, m\<lparr> abort_in := Some k \<rparr>))"

definition positional :: "pyval \<Rightarrow> bool" where
  "positional typ = (typ = PStr ''move'' \<or> typ = PStr ''click'' \<or> typ = PStr ''scroll'')"

text \<open>\<^verbatim>\<open>int(ev.get("x", 0)), int(ev.get("y", 0))\<close>\<close>

definition get_xy :: "pylib \<Rightarrow> pyval \<Rightarrow> error + int \<times> int" where
  "get_xy lib ev =
     bind_err (py_get ev ''x'' (PInt 0)) (\<lambda>xv.
     bind_err (py_int (int_of_str lib) xv) (\<lambda>x.
     bind_err (py_get ev ''y'' (PInt 0)) (\<lambda>yv.
     bind_err (py_int (int_of_str lib) yv) (\<lambda>y.
     Inr (x, y)))))"

fun first_xy_from :: "pylib \<Rightarrow> pyval list \<Rightarrow> error + (int \<times> int) option" where
  "first_xy_from lib [] = Inr None"
| "first_xy_from lib (ev # evs) =
     bind_err (py_get ev ''type'' PNone) (\<lambda>typ.
       if positional typ then bind_err (get_xy lib ev) (\<lambda>xy. Inr (Some xy))
       else first_xy_from lib evs)"

definition Macro_first_xy :: "pylib \<Rightarrow> macro \<Rightarrow> error + (int \<times> int) option" where
  "Macro_first_xy lib m = bind_err (py_iter (events m)) (first_xy_from lib)"

text \<open>The divisor of the delays: \<^verbatim>\<open>max(0.001, float(speed))\<close>.\<close>

definition divisor :: "real \<Rightarrow> real" where
  "divisor s = max (1 / 1000) s"

definition scaled_delay :: "pylib \<Rightarrow> pyval \<Rightarrow> pyval \<Rightarrow> error + real" where
  "scaled_delay lib speed ev =
     bind_err (py_get ev ''t'' (PInt 0)) (\<lambda>tv.
     bind_err (py_float (float_of_str lib) tv) (\<lambda>a.
     bind_err (py_float (float_of_str lib) speed) (\<lambda>s.
     py_truediv a (divisor s))))"

text \<open>\<^verbatim>\<open>(int(ev["x"]), int(ev["y"]))\<close>\<close>

definition ev_xy :: "pylib \<Rightarrow> pyval \<Rightarrow> error + int \<times> int" where
  "ev_xy lib ev =
     bind_err (py_item ev ''x'') (\<lambda>xv.
     bind_err (py_int (int_of_str lib) xv) (\<lambda>x.
     bind_err (py_item ev ''y'') (\<lambda>yv.
     bind_err (py_int (int_of_str lib) yv) (\<lambda>y.
     Inr (x, y)))))"

text \<open>\<^verbatim>\<open>(int(ev.get("dx", 0)), int(ev.get("dy", 0)))\<close>\<close>

definition ev_dxdy :: "pylib \<Rightarrow> pyval \<Rightarrow> error + int \<times> int" where
  "ev_dxdy lib ev =
     bind_err (py_get ev ''dx'' (PInt 0)) (\<lambda>dxv.
     bind_err (py_int (int_of_str lib) dxv) (\<lambda>dx.
     bind_err (py_get ev ''dy'' (PInt 0)) (\<lambda>dyv.
     bind_err (py_int (int_of_str lib) dyv) (\<lambda>dy.
     Inr (dx, dy)))))"

text \<open>\<^verbatim>\<open>getattr(mouse.Button, name)\<close> and \<^verbatim>\<open>getattr(keyboard.Key, name, None)\<close>\<close>

fun getattr_Button :: "pylib \<Rightarrow> pyval \<Rightarrow> error + string" where
  "getattr_Button lib (PStr s) =
     (case mouse_Button lib s of None \<Rightarrow> Inl AttributeError | Some b \<Rightarrow> Inr b)"
| "getattr_Button lib _ = Inl TypeError"

fun getattr_Key :: "pylib \<Rightarrow> pyval \<Rightarrow> error + string option" where
  "getattr_Key lib (PStr s) = Inr (keyboard_Key lib s)"
| "getattr_Key lib _ = Inl TypeError"

text \<open>
  What one event asks of the device once its sleep is over, in order, and the exception
  that ends the event if evaluating it raises. A key that does not resolve, or that is
  suppressed, asks for nothing (\<^verbatim>\<open>continue\<close>).
\<close>

definition resolve_key :: "pylib \<Rightarrow> string list \<Rightarrow> pyval \<Rightarrow> error + keyobj option" where
  "resolve_key lib suppress_hotkeys ev =
     bind_err (py_get ev ''key'' PNone) (\<lambda>k.
     bind_err (py_get ev ''kind'' PNone) (\<lambda>kind.
       if kind = PStr ''char'' then Inr (Some (KChar k))
       else bind_err (getattr_Key lib k) (\<lambda>found.
              case found of
                None \<Rightarrow> Inr None
              | Some name \<Rightarrow>
                  if name \<in> set suppress_hotkeys then Inr None else Inr (Some (KNamed name)))))"

definition key_cmds :: "pylib \<Rightarrow> string list \<Rightarrow> pyval \<Rightarrow> command list \<times> error option" where
  "key_cmds lib suppress_hotkeys ev =
     (case resolve_key lib suppress_hotkeys ev of
        Inl e \<Rightarrow> ([], Some e)
      | Inr None \<Rightarrow> ([], None)
      | Inr (Some keyobj) \<Rightarrow>
          (case py_get ev ''action'' PNone of
             Inl e \<Rightarrow> ([], Some e)
           | Inr act \<Rightarrow>
               if act = PStr ''press'' then ([KeyPress keyobj], None)
               else ([KeyRelease keyobj], None)))"

definition click_cmds :: "pylib \<Rightarrow> pyval \<Rightarrow> command list \<times> error option" where
  "click_cmds lib ev =
     (case bind_err (py_get ev ''button'' (PStr ''left'')) (getattr_Button lib) of
        Inl e \<Rightarrow> ([], Some e)
      | Inr btn \<Rightarrow>
          (case ev_xy lib ev of
             Inl e \<Rightarrow> ([], Some e)
           | Inr (x, y) \<Rightarrow>
               (case py_get ev ''pressed'' (PBool True) of
                  Inl e \<Rightarrow> ([SetPos x y], Some e)
                | Inr p \<Rightarrow>
                    ([SetPos x y, if py_truthy p then MousePress btn else MouseRelease btn],
                     None))))"

definition scroll_cmds :: "pylib \<Rightarrow> pyval \<Rightarrow> command list \<times> error option" where
  "scroll_cmds lib ev =
     (case ev_xy lib ev of
        Inl e \<Rightarrow> ([], Some e)
      | Inr (x, y) \<Rightarrow>
          (case ev_dxdy lib ev of
             Inl e \<Rightarrow> ([SetPos x y], Some e)
           | Inr (dx, dy) \<Rightarrow> ([SetPos x y, MouseScroll dx dy], None)))"

definition move_cmds :: "pylib \<Rightarrow> pyval \<Rightarrow> command list \<times> error option" where
  "move_cmds lib ev =
     (case ev_xy lib ev of
        Inl e \<Rightarrow> ([], Some e)
      | Inr (x, y) \<Rightarrow> ([SetPos x y], None))"

definition act_cmds :: "pylib \<Rightarrow> string list \<Rightarrow> pyval \<Rightarrow> command list \<times> error option" where
  "act_cmds lib suppress_hotkeys ev =
     (case py_get ev ''type'' PNone of
        Inl e \<Rightarrow> ([], Some e)
      | Inr typ \<Rightarrow>
          if typ = PStr ''move'' then move_cmds lib ev
          else if typ = PStr ''click'' then click_cmds lib ev
          else if typ = PStr ''scroll'' then scroll_cmds lib ev
          else if typ = PStr ''key'' then key_cmds lib suppress_hotkeys ev
          else ([], None))"

text \<open>The body of the inner loop after the flag test: the sleep, then the event.\<close>

definition ev_cmds :: "pylib \<Rightarrow> string list \<Rightarrow> pyval \<Rightarrow> pyval \<Rightarrow> command list \<times> error option" where
  "ev_cmds lib suppress_hotkeys speed ev =
     (case scaled_delay lib speed ev of
        Inl e \<Rightarrow> ([], Some e)
      | Inr t \<Rightarrow>
          (case act_cmds lib suppress_hotkeys ev of
             (cs, e) \<Rightarrow> ((if t > 0 then [Sleep t] else []) @ cs, e)))"

text \<open>A sleep always happens; an injection happens unless the device refuses it.\<close>

fun refused :: "pylib \<Rightarrow> command \<Rightarrow> bool" where
  "refused lib (Sleep t) = False"
| "refused lib c = device_fails lib c"

fun exec_cmds :: "pylib \<Rightarrow> command list \<Rightarrow> world \<Rightarrow> world \<times> error option" where
  "exec_cmds lib [] w = (w, None)"
| "exec_cmds lib (c # cs) w =
     (if refused lib c then (w, Some DeviceError)
      else exec_cmds lib cs (w\<lparr> out := out w @ [c] \<rparr>))"

definition play_event ::
  "pylib \<Rightarrow> string list \<Rightarrow> pyval \<Rightarrow> pyval \<Rightarrow> world \<Rightarrow> world \<times> error option" where
  "play_event lib suppress_hotkeys speed ev w =
     (case ev_cmds lib suppress_hotkeys speed ev of
        (cs, e) \<Rightarrow>
          (case exec_cmds lib cs w of
             (w', Some d) \<Rightarrow> (w', Some d)
           | (w', None) \<Rightarrow> (w', e)))"

text \<open>The inner loop: \<^verbatim>\<open>for ev in self.events\<close>, with the flag polled before each event.\<close>

fun play_events ::
  "pylib \<Rightarrow> string list \<Rightarrow> pyval \<Rightarrow> pyval list \<Rightarrow> macro \<times> world \<Rightarrow> (macro \<times> world) \<times> error option"
where
  "play_events lib hk speed [] (m, w) = ((m, w), None)"
| "play_events lib hk speed (ev # evs) (m, w) =
     (case is_set m of
        (True, m1) \<Rightarrow> ((m1, w), None)
      | (False, m1) \<Rightarrow>
          (case play_event lib hk speed ev w of
             (w1, Some e) \<Rightarrow> ((m1, w1), Some e)
           | (w1, None) \<Rightarrow> play_events lib hk speed evs (m1, w1)))"

text \<open>The outer loop: \<^verbatim>\<open>for _ in range(n)\<close>, with the flag polled at the top.\<close>

fun play_loops ::
  "pylib \<Rightarrow> string list \<Rightarrow> pyval \<Rightarrow> pyval list \<Rightarrow> nat \<Rightarrow> macro \<times> world \<Rightarrow>
     (macro \<times> world) \<times> error option"
where
  "play_loops lib hk speed evs 0 (m, w) = ((m, w), None)"
| "play_loops lib hk speed evs (Suc n) (m, w) =
     (case is_set m of
        (True, m1) \<Rightarrow> ((m1, w), None)
      | (False, m1) \<Rightarrow>
          (case play_events lib hk speed evs (m1, w) of
             (st, Some e) \<Rightarrow> (st, Some e)
           | (st, None) \<Rightarrow> play_loops lib hk speed evs n st))"

text \<open>\<^verbatim>\<open>if first: self._controllers["mouse"].position = first\<close>; a pair is always true.\<close>

definition first_move :: "pylib \<Rightarrow> (int \<times> int) option \<Rightarrow> world \<Rightarrow> world \<times> error option" where
  "first_move lib first w =
     (case first of
        None \<Rightarrow> (w, None)
      | Some (x, y) \<Rightarrow> exec_cmds lib [SetPos x y] w)"

definition Macro_play ::
  "pylib \<Rightarrow> pyval \<Rightarrow> pyval \<Rightarrow> string list option \<Rightarrow> macro \<times> world \<Rightarrow>
     (macro \<times> world) \<times> error option"
where
  "Macro_play lib speed loops suppress_hotkeys st =
     (case st of (m, w) \<Rightarrow>
      if \<not> py_truthy (events m) then ((m, w), None)
      else
        let m1 = m\<lparr> stop_flag := False \<rparr>;
            hk = (case suppress_hotkeys of None \<Rightarrow> [] | Some ks \<Rightarrow> ks)
        in
        (case Macro_first_xy lib m1 of
           Inl e \<Rightarrow> ((m1, w), Some e)
         | Inr first \<Rightarrow>
             (case first_move lib first w of
                (w1, Some e) \<Rightarrow> ((m1, w1), Some e)
              | (w1, None) \<Rightarrow>
                  (case py_int (int_of_str lib) loops of
                     Inl e \<Rightarrow> ((m1, w1), Some e)
                   | Inr n \<Rightarrow>
                       (case py_iter (events m1) of
                          Inl e \<Rightarrow> ((m1, w1), Some e)
                        | Inr evs \<Rightarrow>
                            play_loops lib hk speed evs (nat (max 1 n)) (m1, w1))))))"


text \<open>Only a dict has \<^verbatim>\<open>get\<close>.\<close>

definition is_dict :: "pyval \<Rightarrow> bool" where
  "is_dict v = (case v of PDict kvs \<Rightarrow> True | _ \<Rightarrow> False)"

text \<open>
  An event is positional when its \<^verbatim>\<open>type\<close> is one of the three pointer kinds (an
  object without \<^verbatim>\<open>get\<close> is not).
\<close>

definition is_positional :: "pyval \<Rightarrow> bool" where
  "is_positional ev =
     (case py_get ev ''type'' PNone of Inr typ \<Rightarrow> positional typ | Inl e \<Rightarrow> False)"

text \<open>
  An event plays cleanly when evaluating it raises nothing and the device refuses nothing
  it asks for.
\<close>

definition plays_cleanly :: "pylib \<Rightarrow> string list \<Rightarrow> pyval \<Rightarrow> pyval \<Rightarrow> bool" where
  "plays_cleanly lib hk speed ev =
     (snd (ev_cmds lib hk speed ev) = None \<and>
      (\<forall>c \<in> set (fst (ev_cmds lib hk speed ev)). \<not> refused lib c))"

text \<open>The pointer move that precedes the loops, if there is one.\<close>

definition first_cmds :: "pylib \<Rightarrow> pyval list \<Rightarrow> command list" where
  "first_cmds lib evs =
     (case first_xy_from lib evs of Inr (Some (x, y)) \<Rightarrow> [SetPos x y] | _ \<Rightarrow> [])"

text \<open>What one pass over the events asks of the device when every event plays cleanly.\<close>

definition pass_cmds :: "pylib \<Rightarrow> string list \<Rightarrow> pyval \<Rightarrow> pyval list \<Rightarrow> command list" where
  "pass_cmds lib hk speed evs = concat (map (\<lambda>ev. fst (ev_cmds lib hk speed ev)) evs)"

section \<open>Dates and the order of Python values\<close>



text \<open>
  \<^verbatim>\<open>isoformat()\<close> of a naive datetime: \<^verbatim>\<open>YYYY-MM-DDTHH:MM:SS\<close>, followed by
  \<^verbatim>\<open>.ffffff\<close> when the microsecond is not zero; every field is padded with zeros.
\<close>

fun pad :: "nat \<Rightarrow> nat \<Rightarrow> string" where
  "pad 0 n = []"
| "pad (Suc w) n = pad w (n div 10) @ [char_of (48 + n mod 10)]"

definition isoformat :: "datetime \<Rightarrow> string" where
  "isoformat d =
     pad 4 (year d) @ ''-'' @ pad 2 (month d) @ ''-'' @ pad 2 (day d) @ ''T'' @
     pad 2 (hour d) @ '':'' @ pad 2 (minute d) @ '':'' @ pad 2 (second d) @
     (if microsecond d = 0 then [] else ''.'' @ pad 6 (microsecond d))"


text \<open>
  \<^verbatim>\<open>==\<close> and \<^verbatim>\<open><\<close> on values. Numbers (booleans included) compare by value, strings
  by their characters, lists element by element; dicts are equal when they hold the same
  items, in whatever order. Every other pairing is unequal, and ordering it raises.
\<close>

fun num_of :: "pyval \<Rightarrow> real option" where
  "num_of (PInt i) = Some (real_of_int i)"
| "num_of (PFloat r) = Some r"
| "num_of (PBool b) = Some (if b then 1 else 0)"
| "num_of _ = None"

fun py_eq :: "pyval \<Rightarrow> pyval \<Rightarrow> bool" where
  "py_eq (PList xs) (PList ys) = (length xs = length ys \<and> list_all2 py_eq xs ys)"
| "py_eq (PDict a) (PDict b) =
     (length a = length b \<and>
      list_all (\<lambda>kv. list_ex (\<lambda>kv'. fst kv' = fst kv \<and> py_eq (snd kv) (snd kv')) b) a)"
| "py_eq (PStr a) (PStr b) = (a = b)"
| "py_eq PNone PNone = True"
| "py_eq x y = (case (num_of x, num_of y) of (Some a, Some b) \<Rightarrow> a = b | _ \<Rightarrow> False)"

fun py_lt :: "pyval \<Rightarrow> pyval \<Rightarrow> error + bool"
  and py_lt_list :: "pyval list \<Rightarrow> pyval list \<Rightarrow> error + bool" where
  "py_lt (PStr a) (PStr b) = Inr (a < b)"
| "py_lt (PList xs) (PList ys) = py_lt_list xs ys"
| "py_lt x y = (case (num_of x, num_of y) of (Some a, Some b) \<Rightarrow> Inr (a < b) | _ \<Rightarrow> Inl TypeError)"
| "py_lt_list [] [] = Inr False"
| "py_lt_list [] (y # ys) = Inr True"
| "py_lt_list (x # xs) [] = Inr False"
| "py_lt_list (x # xs) (y # ys) = (if py_eq x y then py_lt_list xs ys else py_lt x y)"






section \<open>The scheduler\<close>

text \<open>
  \<^verbatim>\<open>_events\<close> is whatever was assigned last: the empty dict, the dict that \<^verbatim>\<open>add\<close>
  grows, or the value decoded from the persisted file.
\<close>

record scheduler =
  sched_events :: pyval
  persist_path :: string



fun py_setitem :: "pyval \<Rightarrow> string \<Rightarrow> pyval \<Rightarrow> error + pyval" where
  "py_setitem (PDict kvs) k v = Inr (PDict (AList.update k v kvs))"
| "py_setitem _ k v = Inl TypeError"

text \<open>\<^verbatim>\<open>save\<close>: whatever goes wrong is dropped.\<close>

definition Scheduler_save :: "pylib \<Rightarrow> scheduler \<Rightarrow> world \<Rightarrow> world" where
  "Scheduler_save lib s w =
     (case write_text (persist_path s) (json_dumps_indent lib (sched_events s)) w of
        Inl e \<Rightarrow> w
      | Inr w' \<Rightarrow> w')"

text \<open>\<^verbatim>\<open>load\<close>: the body of the \<^verbatim>\<open>try\<close>, and the handler around it.\<close>

definition Scheduler_load_try :: "pylib \<Rightarrow> world \<Rightarrow> scheduler \<Rightarrow> error + scheduler" where
  "Scheduler_load_try lib w s =
     bind_err (read_text w (persist_path s)) (\<lambda>text.
       case json_loads lib text of
         None \<Rightarrow> Inl JSONDecodeError
       | Some v \<Rightarrow> Inr (s\<lparr> sched_events := v \<rparr>))"



text \<open>
  \<^verbatim>\<open>add\<close>; \<open>fresh\<close> is the identifier \<^verbatim>\<open>uuid.uuid4()\<close> would give.
\<close>

definition Scheduler_add ::
  "pylib \<Rightarrow> string \<Rightarrow> string \<Rightarrow> datetime \<Rightarrow> string \<Rightarrow> pyval \<Rightarrow> pyval \<Rightarrow> string option \<Rightarrow>
     scheduler \<times> world \<Rightarrow> (scheduler \<times> world) \<times> (error + string)"
where
  "Scheduler_add lib fresh title when_dt macro_path speed loops uid st =
     (case st of (s, w) \<Rightarrow>
      let uid' = (case uid of None \<Rightarrow> fresh | Some u \<Rightarrow> u) in
      (case bind_err (py_float (float_of_str lib) speed) (\<lambda>sp.
            bind_err (py_int (int_of_str lib) loops) (\<lambda>lp.
            py_setitem (sched_events s) uid'
              (PDict [(''id'', PStr uid'), (''title'', PStr title),
                      (''when'', PStr (isoformat when_dt)), (''macro'', PStr macro_path),
                      (''speed'', PFloat sp), (''loops'', PInt lp)]))) of
         Inl e \<Rightarrow> ((s, w), Inl e)
       | Inr tbl \<Rightarrow>
           let s' = s\<lparr> sched_events := tbl \<rparr> in ((s', Scheduler_save lib s' w), Inr uid')))"




definition control_hotkeys :: "string list" where
  "control_hotkeys = [''f8'', ''f7'', ''f9'', ''f10'']"








text \<open>The \<^verbatim>\<open>when\<close> string of a trigger record, and whether it has one.\<close>

definition when_str :: "pyval \<Rightarrow> string" where
  "when_str e = (case py_item e ''when'' of Inr (PStr s) \<Rightarrow> s | _ \<Rightarrow> [])"

definition has_when :: "pyval \<Rightarrow> bool" where
  "has_when e = (case py_item e ''when'' of Inr (PStr s) \<Rightarrow> True | _ \<Rightarrow> False)"



section \<open>The event records of the specification\<close>

text \<open>
  This predicate is written from the specification's data model, not from the code: an
  event record holds a numeric, non-negative delay, a type discriminator and the fields
  of its kind; a macro file holds a sequence of such records. The code has no counterpart
  of it.
\<close>

definition is_int :: "pyval option \<Rightarrow> bool" where
  "is_int v = (case v of Some (PInt i) \<Rightarrow> True | _ \<Rightarrow> False)"

definition is_delay :: "pyval option \<Rightarrow> bool" where
  "is_delay v = (case v of Some (PInt i) \<Rightarrow> 0 \<le> i | Some (PFloat r) \<Rightarrow> 0 \<le> r | _ \<Rightarrow> False)"

definition is_str :: "pyval option \<Rightarrow> bool" where
  "is_str v = (case v of Some (PStr s) \<Rightarrow> True | _ \<Rightarrow> False)"

definition is_bool :: "pyval option \<Rightarrow> bool" where
  "is_bool v = (case v of Some (PBool b) \<Rightarrow> True | _ \<Rightarrow> False)"

fun spec_event_record :: "pyval \<Rightarrow> bool" where
  "spec_event_record (PDict kvs) =
     (is_delay (map_of kvs ''t'') \<and>
      (case map_of kvs ''type'' of
         Some (PStr ty) \<Rightarrow>
           if ty = ''move'' then is_int (map_of kvs ''x'') \<and> is_int (map_of kvs ''y'')
           else if ty = ''click'' then
             is_int (map_of kvs ''x'') \<and> is_int (map_of kvs ''y'') \<and>
             is_str (map_of kvs ''button'') \<and> is_bool (map_of kvs ''pressed'')
           else if ty = ''scroll'' then
             is_int (map_of kvs ''x'') \<and> is_int (map_of kvs ''y'') \<and>
             is_int (map_of kvs ''dx'') \<and> is_int (map_of kvs ''dy'')
           else if ty = ''key'' then
             (map_of kvs ''action'' = Some (PStr ''press'') \<or>
              map_of kvs ''action'' = Some (PStr ''release'')) \<and>
             (map_of kvs ''kind'' = Some (PStr ''char'') \<or>
              map_of kvs ''kind'' = Some (PStr ''special'')) \<and>
             is_str (map_of kvs ''key'')
           else False
       | _ \<Rightarrow> False))"
| "spec_event_record _ = False"

fun spec_event_sequence :: "pyval \<Rightarrow> bool" where
  "spec_event_sequence (PList evs) = list_all spec_event_record evs"
| "spec_event_sequence _ = False"


section \<open>Sample data\<close>

text \<open>
  A stand-in for the libraries that answers as they do on the inputs used in the examples
  of this theory: the JSON texts and values listed, the three usual mouse buttons, a few
  keys, one timestamp, and a device that accepts everything.
\<close>

definition move_event :: pyval where
  "move_event = PDict [(''t'', PFloat (1 / 2)), (''type'', PStr ''move''), (''x'', PInt 1),
                       (''y'', PInt 2)]"

definition key_event :: pyval where
  "key_event = PDict [(''t'', PInt 0), (''type'', PStr ''key''), (''action'', PStr ''press''),
                      (''kind'', PStr ''char''), (''key'', PStr ''a'')]"

definition new_year :: datetime where
  "new_year = \<lparr> year = 2025, month = 1, day = 1, hour = 0, minute = 0, second = 0,
                 microsecond = 0 \<rparr>"

definition demo_lib :: pylib where
  \<open>demo_lib = \<lparr>
     json_dumps_compact = (\<lambda>v.
        if v = PList [] then ''[]''
        else if v = PList [move_event] then ''[{"t":0.5,"type":"move","x":1,"y":2}]''
        else ''null''),
     json_dumps_indent = (\<lambda>v. if v = PDict [] then ''{}'' else ''null''),
     json_loads = (\<lambda>s.
        if s = ''[]'' then Some (PList [])
        else if s = ''{}'' then Some (PDict [])
        else if s = ''[{}]'' then Some (PList [PDict []])
        else if s = ''[{"t":0.5,"type":"move","x":1,"y":2}]'' then Some (PList [move_event])
        else if s = ''null'' then Some PNone
        else None),
     int_of_str = (\<lambda>s. None),
     float_of_str = (\<lambda>s. None),
     mouse_Button = (\<lambda>s. if s \<in> set [''left'', ''middle'', ''right''] then Some s else None),
     keyboard_Key = (\<lambda>s. if s \<in> set [''f7'', ''f8'', ''f9'', ''f10'', ''enter'', ''shift'']
                          then Some s else None),
     fromisoformat = (\<lambda>s. if s = ''2025-01-01T00:00:00'' then Some new_year else None),
     device_fails = (\<lambda>c. False) \<rparr>\<close>

text \<open>
  A file system: a macro with one move, a file that is not JSON, a file with one empty
  record, a file that cannot be opened; no other path exists.
\<close>

definition demo_files :: "string \<Rightarrow> node option" where
  \<open>demo_files p =
     (if p = ''move.json'' then Some (Regular ''[{"t":0.5,"type":"move","x":1,"y":2}]'')
      else if p = ''broken.json'' then Some (Regular ''oops'')
      else if p = ''blank.json'' then Some (Regular ''[{}]'')
      else if p = ''locked.json'' then Some Denied
      else None)\<close>

definition demo_world :: world where
  "demo_world = \<lparr> files = demo_files, out = [] \<rparr>"

text \<open>
  Sample macros: a move followed by a key press, a key press alone, a key press followed
  by a move, a move alone.
\<close>

definition demo_macro :: macro where
  "demo_macro = Macro_init\<lparr> events := PList [move_event, key_event] \<rparr>"

definition keys_macro :: macro where
  "keys_macro = Macro_init\<lparr> events := PList [key_event] \<rparr>"

definition key_then_move :: macro where
  "key_then_move = Macro_init\<lparr> events := PList [key_event, move_event] \<rparr>"














section \<open>Properties of the recorder\<close>

text \<open>A callback that nothing interrupts is its two halves, one after the other.\<close>

lemma notify_build_rec:
  "notify now n m =
     (case build now n m of
        (None, m1) \<Rightarrow> (m1, None)
      | (Some item, m1) \<Rightarrow> Macro_rec item m1)"
  by (cases n)
     (auto simp: build_def notify_item_def Macro_on_move_def Macro_on_click_def
        Macro_on_scroll_def Macro_on_press_def Macro_on_release_def Macro_on_key_def
        split: prod.splits)

lemma paused_notification_dropped:
  "recording m \<Longrightarrow> paused m \<Longrightarrow> events (fst (notify now n m)) = events m"
  by (auto simp: notify_build_rec build_def Macro_rec_def Macro_dt_def split: prod.splits)

lemma notification_moves_timestamp:
  "\<not> filtered m n \<Longrightarrow> last_ts (fst (notify now n m)) = Some now"
  by (auto simp: notify_build_rec build_def Macro_rec_def Macro_dt_def
      split: prod.splits pyval.splits)

lemma run_resumed_too_soon_paused:
  "run Macro_init (take 2 resumed_too_soon) =
     \<lparr> events = PList [], recording = True, paused = True, last_ts = Some 12,
       stop_flag = False, control_keys = [], abort_in = None \<rparr>"
  by (simp add: resumed_too_soon_def run_def Macro_init_def Macro_start_recording_def
      Macro_pause_toggle_def)

lemma run_resumed_too_soon_built:
  "run Macro_init (take 3 resumed_too_soon) =
     \<lparr> events = PList [], recording = True, paused = True, last_ts = Some 19,
       stop_flag = False, control_keys = [], abort_in = None \<rparr>"
  by (simp add: resumed_too_soon_def run_def Macro_init_def Macro_start_recording_def
      Macro_pause_toggle_def build_def Macro_dt_def)

lemma run_resumed_too_soon:
  "run Macro_init resumed_too_soon =
     \<lparr> events = PList [PDict [(''t'', PFloat 7), (''type'', PStr ''move''), (''x'', PInt 7),
                              (''y'', PInt 8)]],
       recording = True, paused = False, last_ts = Some 20,
       stop_flag = False, control_keys = [], abort_in = None \<rparr>"
  by (simp add: resumed_too_soon_def run_def Macro_init_def Macro_start_recording_def
      Macro_pause_toggle_def build_def Macro_dt_def Macro_rec_def notify_item_def)

lemma run_racing_listeners:
  "events (run Macro_init racing_listeners) =
     PList [PDict [(''t'', PFloat 2), (''type'', PStr ''key''), (''action'', PStr ''press''),
                   (''kind'', PStr ''char''), (''key'', PStr ''a'')],
            PDict [(''t'', PFloat (- 1)), (''type'', PStr ''move''), (''x'', PInt 1),
                   (''y'', PInt 1)]]"
  by (simp add: racing_listeners_def run_def Macro_init_def Macro_start_recording_def
      build_def Macro_dt_def Macro_rec_def notify_item_def)

text \<open>
  Claim C1 fails on the code. The recorder is paused from 12 to 20. The callback of a
  move that arrives during the pause runs \<^verbatim>\<open>_dt\<close> at 19, outside the lock: the
  timestamp goes from 12 to 19 and the delay of 7 is computed, nothing is appended yet.
  The recorder is resumed at 20, and the callback's \<^verbatim>\<open>_rec\<close> then finds it recording
  and not paused and appends the record: its delay of 7 is the paused time from 12 to 19.
  A notification that arrives and completes during a pause is dropped, and moves the
  timestamp all the same. And when two callbacks race between the clock reading and
  \<^verbatim>\<open>_dt\<close>, a delay of -1 is recorded.
\<close>

theorem paused_time_is_recorded:
  "paused (run Macro_init (take 2 resumed_too_soon))
   \<and> last_ts (run Macro_init (take 2 resumed_too_soon)) = Some 12
   \<and> events (fst (notify 15 (OnMove 7 8) (run Macro_init (take 2 resumed_too_soon))))
       = events (run Macro_init (take 2 resumed_too_soon))
   \<and> last_ts (fst (notify 15 (OnMove 7 8) (run Macro_init (take 2 resumed_too_soon)))) = Some 15
   \<and> paused (run Macro_init (take 3 resumed_too_soon))
   \<and> events (run Macro_init (take 3 resumed_too_soon)) = PList []
   \<and> last_ts (run Macro_init (take 3 resumed_too_soon)) = Some 19
   \<and> events (run Macro_init resumed_too_soon) =
       PList [PDict [(''t'', PFloat 7), (''type'', PStr ''move''), (''x'', PInt 7),
                     (''y'', PInt 8)]]
   \<and> map delay_of [PDict [(''t'', PFloat 7), (''type'', PStr ''move''), (''x'', PInt 7),
                           (''y'', PInt 8)]] = [Some (19 - 12)]
   \<and> events (run Macro_init racing_listeners) =
       PList [PDict [(''t'', PFloat 2), (''type'', PStr ''key''), (''action'', PStr ''press''),
                     (''kind'', PStr ''char''), (''key'', PStr ''a'')],
              PDict [(''t'', PFloat (- 1)), (''type'', PStr ''move''), (''x'', PInt 1),
                     (''y'', PInt 1)]]"
proof -
  have a: "events (fst (notify 15 (OnMove 7 8) (run Macro_init (take 2 resumed_too_soon))))
       = events (run Macro_init (take 2 resumed_too_soon))"
    by (rule paused_notification_dropped) (simp_all add: run_resumed_too_soon_paused)
  have b: "last_ts (fst (notify 15 (OnMove 7 8) (run Macro_init (take 2 resumed_too_soon))))
      = Some 15"
    by (rule notification_moves_timestamp) simp
  show ?thesis
    using a b run_racing_listeners
    by (simp add: run_resumed_too_soon_paused run_resumed_too_soon_built run_resumed_too_soon)
qed


section \<open>Properties of playback\<close>

lemma divisor_pos: "0 < divisor s" "1 / 1000 \<le> divisor s"
  by (simp_all add: divisor_def max_def)

lemma divisor_nz: "divisor s \<noteq> 0"
  using divisor_pos(1)[of s] by simp

lemma bind_err_simps [simp]:
  "bind_err (Inl e) f = Inl e" "bind_err (Inr v) f = f v"
  by (simp_all add: bind_err_def)

lemma bind_err_eq_Inr: "bind_err r f = Inr y \<longleftrightarrow> (\<exists>v. r = Inr v \<and> f v = Inr y)"
  by (cases r) simp_all

lemma bind_err_eq_Inl: "bind_err r f = Inl e \<longleftrightarrow> r = Inl e \<or> (\<exists>v. r = Inr v \<and> f v = Inl e)"
  by (cases r) simp_all

lemma py_get_not_zerodiv: "py_get ev k d \<noteq> Inl ZeroDivisionError"
  by (cases ev) simp_all

lemma py_float_not_zerodiv: "py_float f v \<noteq> Inl ZeroDivisionError"
  by (cases v) (simp_all split: option.splits)

lemma scaled_delay_no_zerodiv: "scaled_delay lib speed ev \<noteq> Inl ZeroDivisionError"
  by (auto simp: scaled_delay_def bind_err_eq_Inl py_get_not_zerodiv py_float_not_zerodiv
      py_truediv_def divisor_nz)

lemma scaled_delay_value:
  "scaled_delay lib speed ev = Inr t \<Longrightarrow>
     \<exists>a s. py_float (float_of_str lib) speed = Inr s \<and> t = a / divisor s"
  by (auto simp: scaled_delay_def bind_err_eq_Inr py_truediv_def divisor_nz)

lemma exec_cmds_ok:
  "\<forall>c \<in> set cs. \<not> refused lib c \<Longrightarrow> exec_cmds lib cs w = (w\<lparr> out := out w @ cs \<rparr>, None)"
  by (induction cs arbitrary: w) simp_all

lemma play_event_clean:
  "plays_cleanly lib hk speed ev \<Longrightarrow>
   play_event lib hk speed ev w = (w\<lparr> out := out w @ fst (ev_cmds lib hk speed ev) \<rparr>, None)"
  by (auto simp: plays_cleanly_def play_event_def exec_cmds_ok split: prod.splits)

lemma is_set_quiet: "abort_in m = None \<Longrightarrow> is_set m = (stop_flag m, m)"
  by (simp add: is_set_def)

lemma play_events_clean:
  assumes "abort_in m = None" "\<not> stop_flag m"
  shows "\<forall>ev \<in> set evs. plays_cleanly lib hk speed ev \<Longrightarrow>
   play_events lib hk speed evs (m, w) =
     ((m, w\<lparr> out := out w @ pass_cmds lib hk speed evs \<rparr>), None)"
  using assms
  by (induction evs arbitrary: w) (simp_all add: is_set_quiet play_event_clean pass_cmds_def)

lemma play_loops_clean:
  assumes "abort_in m = None" "\<not> stop_flag m" "\<forall>ev \<in> set evs. plays_cleanly lib hk speed ev"
  shows "play_loops lib hk speed evs n (m, w) =
     ((m, w\<lparr> out := out w @ concat (replicate n (pass_cmds lib hk speed evs)) \<rparr>), None)"
  using assms
  by (induction n arbitrary: w) (simp_all add: is_set_quiet play_events_clean)

lemma py_get_item:
  "py_item ev k = Inr v \<Longrightarrow> py_get ev k d = Inr v"
  by (cases ev) (auto split: option.splits)

lemma ev_xy_get_xy: "ev_xy lib ev = Inr xy \<Longrightarrow> get_xy lib ev = Inr xy"
  by (auto simp: ev_xy_def get_xy_def bind_err_eq_Inr dest: py_get_item)

lemma positional_cmds:
  assumes "py_get ev ''type'' PNone = Inr ty" "positional ty"
    "act_cmds lib hk ev = (cs, None)"
  shows "\<exists>x y rest. ev_xy lib ev = Inr (x, y) \<and> cs = SetPos x y # rest"
  using assms
  by (auto simp: act_cmds_def positional_def move_cmds_def click_cmds_def scroll_cmds_def
      split: sum.splits if_splits prod.splits)

lemma ev_cmds_clean_act:
  "snd (ev_cmds lib hk speed ev) = None \<Longrightarrow>
     \<exists>cs t. act_cmds lib hk ev = (cs, None) \<and> scaled_delay lib speed ev = Inr t \<and>
       fst (ev_cmds lib hk speed ev) = (if t > 0 then [Sleep t] else []) @ cs"
  by (auto simp: ev_cmds_def split: sum.splits prod.splits)

lemma scaled_delay_dict:
  "scaled_delay lib speed ev = Inr t \<Longrightarrow> \<exists>ty. py_get ev ''type'' PNone = Inr ty"
  by (cases ev) (auto simp: scaled_delay_def)

lemma first_xy_clean:
  "\<forall>ev \<in> set evs. plays_cleanly lib hk speed ev \<Longrightarrow>
     (first_xy_from lib evs = Inr None \<or>
      (\<exists>x y. first_xy_from lib evs = Inr (Some (x, y)) \<and> \<not> refused lib (SetPos x y)))"
proof (induction evs)
  case Nil
  then show ?case by simp
next
  case (Cons ev evs)
  then have cl: "plays_cleanly lib hk speed ev"
    and rest: "\<forall>ev \<in> set evs. plays_cleanly lib hk speed ev"
    by simp_all
  from cl have e: "snd (ev_cmds lib hk speed ev) = None"
    and r: "\<forall>c \<in> set (fst (ev_cmds lib hk speed ev)). \<not> refused lib c"
    by (simp_all add: plays_cleanly_def)
  from ev_cmds_clean_act[OF e] obtain cs t where a: "act_cmds lib hk ev = (cs, None)"
    and t: "scaled_delay lib speed ev = Inr t"
    and f: "fst (ev_cmds lib hk speed ev) = (if t > 0 then [Sleep t] else []) @ cs" by blast
  from scaled_delay_dict[OF t] obtain ty where ty: "py_get ev ''type'' PNone = Inr ty" by blast
  show ?case
  proof (cases "positional ty")
    case False
    with ty Cons.IH[OF rest] show ?thesis by simp
  next
    case True
    from positional_cmds[OF ty True a] obtain x y rest' where xy: "ev_xy lib ev = Inr (x, y)"
      and cs: "cs = SetPos x y # rest'" by blast
    from r f cs have "\<not> refused lib (SetPos x y)" by auto
    moreover from ev_xy_get_xy[OF xy] ty True
    have "first_xy_from lib (ev # evs) = Inr (Some (x, y))" by simp
    ultimately show ?thesis by blast
  qed
qed

lemma first_move_clean:
  assumes "\<forall>ev \<in> set evs. plays_cleanly lib hk speed ev"
  shows "\<exists>first. first_xy_from lib evs = Inr first \<and>
     first_move lib first w = (w\<lparr> out := out w @ first_cmds lib evs \<rparr>, None)"
  using first_xy_clean[OF assms]
  by (auto simp: first_move_def first_cmds_def)

lemma Macro_play_clean:
  assumes ev: "events m = PList evs" "evs \<noteq> []"
    and cl: "\<forall>ev \<in> set evs. plays_cleanly lib hk speed ev"
    and n: "py_int (int_of_str lib) loops = Inr n"
    and ab: "abort_in m = None"
  shows "Macro_play lib speed loops (Some hk) (m, w) =
     ((m\<lparr> stop_flag := False \<rparr>,
       w\<lparr> out := out w @ first_cmds lib evs @
            concat (replicate (nat (max 1 n)) (pass_cmds lib hk speed evs)) \<rparr>),
      None)"
proof -
  from first_move_clean[OF cl, of w] obtain first where f: "first_xy_from lib evs = Inr first"
    and fm: "first_move lib first w = (w\<lparr> out := out w @ first_cmds lib evs \<rparr>, None)" by blast
  have pl: "play_loops lib hk speed evs (nat (max 1 n))
        (m\<lparr> stop_flag := False \<rparr>, w\<lparr> out := out w @ first_cmds lib evs \<rparr>)
      = ((m\<lparr> stop_flag := False \<rparr>,
          w\<lparr> out := out w @ first_cmds lib evs @
            concat (replicate (nat (max 1 n)) (pass_cmds lib hk speed evs)) \<rparr>),
         None)"
    using play_loops_clean[of "m\<lparr> stop_flag := False \<rparr>" evs lib hk speed "nat (max 1 n)"
        "w\<lparr> out := out w @ first_cmds lib evs \<rparr>"] ab cl
    by simp
  show ?thesis
    using ev f fm n pl by (simp add: Macro_play_def Macro_first_xy_def)
qed

lemma loops_below_one:
  "n < 1 \<Longrightarrow> Macro_play lib speed (PInt n) hk st = Macro_play lib speed (PInt 1) hk st"
  by (auto simp: Macro_play_def Let_def max_def split: prod.splits sum.splits option.splits)

lemma scaled_delay_iff:
  "scaled_delay lib speed ev = Inr t \<longleftrightarrow>
     (\<exists>tv a s. py_get ev ''t'' (PInt 0) = Inr tv \<and> py_float (float_of_str lib) tv = Inr a \<and>
        py_float (float_of_str lib) speed = Inr s \<and> t = a / divisor s)"
proof
  assume "scaled_delay lib speed ev = Inr t"
  then show "\<exists>tv a s. py_get ev ''t'' (PInt 0) = Inr tv \<and> py_float (float_of_str lib) tv = Inr a \<and>
        py_float (float_of_str lib) speed = Inr s \<and> t = a / divisor s"
    by (auto simp: scaled_delay_def bind_err_eq_Inr py_truediv_def divisor_nz)
next
  assume "\<exists>tv a s. py_get ev ''t'' (PInt 0) = Inr tv \<and> py_float (float_of_str lib) tv = Inr a \<and>
        py_float (float_of_str lib) speed = Inr s \<and> t = a / divisor s"
  then obtain tv a s where "py_get ev ''t'' (PInt 0) = Inr tv"
    "py_float (float_of_str lib) tv = Inr a" "py_float (float_of_str lib) speed = Inr s"
    "t = a / divisor s" by blast
  then show "scaled_delay lib speed ev = Inr t"
    by (simp add: scaled_delay_def py_truediv_def divisor_nz)
qed

lemma ev_cmds_sleep:
  "scaled_delay lib speed ev = Inr t \<Longrightarrow>
     fst (ev_cmds lib hk speed ev) = (if 0 < t then [Sleep t] else []) @ fst (act_cmds lib hk ev)"
  by (simp add: ev_cmds_def split: prod.splits)

text \<open>
  Claim C4. Every delay is divided by \<open>divisor\<close> of the speed, the maximum of one
  thousandth and the speed, which is at least one thousandth whatever the speed is: the
  scaled delay of an event is its \<^verbatim>\<open>t\<close> over that divisor, the event sleeps for it when
  it is positive, and evaluating an event never raises a division by zero. A loop count
  below one plays like a loop count of one. When nobody aborts and every event plays
  cleanly, \<^verbatim>\<open>play\<close> on a non-empty sequence ends without an exception, and what it did
  is the first pointer move followed by exactly \<open>max 1 loops\<close> passes over the events.
\<close>

theorem speed_clamped_loops_at_least_one:
  "divisor s = max (1 / 1000) s \<and> 1 / 1000 \<le> divisor s
   \<and> (scaled_delay lib speed ev = Inr t \<longleftrightarrow>
        (\<exists>tv a s. py_get ev ''t'' (PInt 0) = Inr tv \<and> py_float (float_of_str lib) tv = Inr a \<and>
           py_float (float_of_str lib) speed = Inr s \<and> t = a / divisor s))
   \<and> (scaled_delay lib speed ev = Inr t \<longrightarrow>
        fst (ev_cmds lib hk speed ev)
          = (if 0 < t then [Sleep t] else []) @ fst (act_cmds lib hk ev))
   \<and> scaled_delay lib speed ev \<noteq> Inl ZeroDivisionError
   \<and> (n < 1 \<longrightarrow> Macro_play lib speed (PInt n) hk' st = Macro_play lib speed (PInt 1) hk' st)
   \<and> (events m = PList evs \<and> evs \<noteq> [] \<and> (\<forall>ev \<in> set evs. plays_cleanly lib hk speed ev)
        \<and> py_int (int_of_str lib) loops = Inr n \<and> abort_in m = None \<longrightarrow>
       Macro_play lib speed loops (Some hk) (m, w) =
         ((m\<lparr> stop_flag := False \<rparr>,
           w\<lparr> out := out w @ first_cmds lib evs @
                concat (replicate (nat (max 1 n)) (pass_cmds lib hk speed evs)) \<rparr>),
          None))"
proof -
  have 1: "divisor s = max (1 / 1000) s \<and> 1 / 1000 \<le> divisor s"
    by (simp add: divisor_def)
  have 2: "scaled_delay lib speed ev = Inr t \<longleftrightarrow>
        (\<exists>tv a s. py_get ev ''t'' (PInt 0) = Inr tv \<and> py_float (float_of_str lib) tv = Inr a \<and>
           py_float (float_of_str lib) speed = Inr s \<and> t = a / divisor s)"
    by (rule scaled_delay_iff)
  from 1 2 ev_cmds_sleep[of lib speed ev t hk] scaled_delay_no_zerodiv[of lib speed ev]
    loops_below_one[of n lib speed hk' st] Macro_play_clean[of m evs lib hk speed loops n w]
  show ?thesis by blast
qed

lemma exec_cmds_out:
  "\<exists>ys. out (fst (exec_cmds lib cs w)) = out w @ ys \<and> set ys \<subseteq> set cs"
proof (induction cs arbitrary: w)
  case Nil
  then show ?case by simp
next
  case (Cons c cs)
  show ?case
  proof (cases "refused lib c")
    case True
    then show ?thesis by simp
  next
    case False
    from Cons[of "w\<lparr> out := out w @ [c] \<rparr>"] obtain ys where
      "out (fst (exec_cmds lib cs (w\<lparr> out := out w @ [c] \<rparr>))) = (out w @ [c]) @ ys" "set ys \<subseteq> set cs"
      by auto
    with False show ?thesis by (intro exI[of _ "c # ys"]) auto
  qed
qed

lemma play_event_out:
  "\<exists>ys. out (fst (play_event lib hk speed ev w)) = out w @ ys \<and>
     set ys \<subseteq> set (fst (ev_cmds lib hk speed ev))"
  using exec_cmds_out[of lib "fst (ev_cmds lib hk speed ev)" w]
  by (auto simp: play_event_def split: prod.splits option.splits)

lemma play_events_out:
  "\<exists>ys. out (snd (fst (play_events lib hk speed evs (m, w)))) = out w @ ys \<and>
     set ys \<subseteq> set (pass_cmds lib hk speed evs)"
proof (induction evs arbitrary: m w)
  case Nil
  then show ?case by simp
next
  case (Cons ev evs)
  obtain b m1 where s: "is_set m = (b, m1)" by (cases "is_set m")
  obtain w1 e where p: "play_event lib hk speed ev w = (w1, e)" by (cases "play_event lib hk speed ev w")
  from play_event_out[of lib hk speed ev w] p obtain ys where
    ys: "out w1 = out w @ ys" "set ys \<subseteq> set (fst (ev_cmds lib hk speed ev))" by auto
  from Cons[of m1 w1] obtain zs where
    zs: "out (snd (fst (play_events lib hk speed evs (m1, w1)))) = out w1 @ zs"
      "set zs \<subseteq> set (pass_cmds lib hk speed evs)" by blast
  show ?case
  proof (cases b)
    case True
    with s show ?thesis by simp
  next
    case False
    show ?thesis
    proof (cases e)
      case None
      with s p False ys zs show ?thesis
        by (intro exI[of _ "ys @ zs"]) (auto simp: pass_cmds_def)
    next
      case (Some err)
      with s p False ys show ?thesis
        by (intro exI[of _ ys]) (auto simp: pass_cmds_def)
    qed
  qed
qed

lemma play_loops_out:
  "\<exists>ys. out (snd (fst (play_loops lib hk speed evs n (m, w)))) = out w @ ys \<and>
     set ys \<subseteq> set (pass_cmds lib hk speed evs)"
proof (induction n arbitrary: m w)
  case 0
  then show ?case by simp
next
  case (Suc n)
  obtain b m1 where s: "is_set m = (b, m1)" by (cases "is_set m")
  obtain m2 w2 e where p: "play_events lib hk speed evs (m1, w) = ((m2, w2), e)"
    by (cases "play_events lib hk speed evs (m1, w)") auto
  from play_events_out[of lib hk speed evs m1 w] p obtain ys where
    ys: "out w2 = out w @ ys" "set ys \<subseteq> set (pass_cmds lib hk speed evs)" by auto
  from Suc[of m2 w2] obtain zs where
    zs: "out (snd (fst (play_loops lib hk speed evs n (m2, w2)))) = out w2 @ zs"
      "set zs \<subseteq> set (pass_cmds lib hk speed evs)" by blast
  show ?case
  proof (cases b)
    case True
    with s show ?thesis by simp
  next
    case False
    show ?thesis
    proof (cases e)
      case None
      with s p False ys zs show ?thesis
        by (intro exI[of _ "ys @ zs"]) auto
    next
      case (Some err)
      with s p False ys show ?thesis
        by (intro exI[of _ ys]) auto
    qed
  qed
qed

lemma key_cmds_no_setpos: "SetPos x y \<notin> set (fst (key_cmds lib hk ev))"
  by (auto simp: key_cmds_def split: sum.splits option.splits)

lemma nonpositional_no_setpos:
  assumes "\<not> is_positional ev"
  shows "SetPos x y \<notin> set (fst (ev_cmds lib hk speed ev))"
proof (cases "py_get ev ''type'' PNone")
  case (Inl e)
  then have "\<exists>e. scaled_delay lib speed ev = Inl e"
    by (cases ev) (auto simp: scaled_delay_def)
  then show ?thesis by (auto simp: ev_cmds_def)
next
  case (Inr ty)
  with assms have np: "\<not> positional ty" by (simp add: is_positional_def)
  then have "SetPos x y \<notin> set (fst (act_cmds lib hk ev))"
    using Inr key_cmds_no_setpos[of x y lib hk ev]
    by (auto simp: act_cmds_def positional_def)
  then show ?thesis
    by (auto simp: ev_cmds_def split: sum.splits prod.splits)
qed

lemma pass_no_setpos:
  "\<forall>ev \<in> set evs. \<not> is_positional ev \<Longrightarrow> SetPos x y \<notin> set (pass_cmds lib hk speed evs)"
  by (auto simp: pass_cmds_def nonpositional_no_setpos)

lemma first_xy_from_Some:
  "first_xy_from lib evs = Inr (Some xy) \<Longrightarrow>
     \<exists>pre ev post. evs = pre @ ev # post \<and> (\<forall>e \<in> set pre. \<not> is_positional e) \<and>
       is_positional ev \<and> get_xy lib ev = Inr xy"
proof (induction evs)
  case Nil
  then show ?case by simp
next
  case (Cons ev evs)
  from Cons.prems obtain ty where ty: "py_get ev ''type'' PNone = Inr ty"
    by (auto simp: bind_err_eq_Inr)
  show ?case
  proof (cases "positional ty")
    case True
    with Cons.prems ty have "get_xy lib ev = Inr xy" by (auto simp: bind_err_eq_Inr)
    with ty True show ?thesis
      by (intro exI[of _ "[]"] exI[of _ ev] exI[of _ evs]) (simp add: is_positional_def)
  next
    case False
    with Cons.prems ty have "first_xy_from lib evs = Inr (Some xy)" by simp
    from Cons.IH[OF this] obtain pre e post where
      "evs = pre @ e # post" "\<forall>e \<in> set pre. \<not> is_positional e" "is_positional e"
      "get_xy lib e = Inr xy" by blast
    with ty False show ?thesis
      by (intro exI[of _ "ev # pre"] exI[of _ e] exI[of _ post]) (simp add: is_positional_def)
  qed
qed

lemma first_xy_from_nonpositional:
  "\<forall>ev \<in> set evs. \<not> is_positional ev \<Longrightarrow> first_xy_from lib evs \<noteq> Inr (Some xy)"
  using first_xy_from_Some[of lib evs xy] by auto

lemma Macro_play_starts_with_move:
  assumes "events m = PList evs" "evs \<noteq> []" "first_xy_from lib evs = Inr (Some (x, y))"
    "\<not> refused lib (SetPos x y)"
  shows "\<exists>rest. out (snd (fst (Macro_play lib speed loops hk (m, w)))) = out w @ SetPos x y # rest"
proof -
  let ?m1 = "m\<lparr> stop_flag := False \<rparr>"
  let ?w1 = "w\<lparr> out := out w @ [SetPos x y] \<rparr>"
  let ?hk = "case hk of None \<Rightarrow> [] | Some ks \<Rightarrow> ks"
  from assms have fm: "first_move lib (Some (x, y)) w = (?w1, None)"
    by (simp add: first_move_def)
  show ?thesis
  proof (cases "py_int (int_of_str lib) loops")
    case (Inl e)
    with assms fm show ?thesis by (simp add: Macro_play_def Macro_first_xy_def)
  next
    case (Inr n)
    from play_loops_out[of lib ?hk speed evs "nat (max 1 n)" ?m1 ?w1] obtain ys where
      "out (snd (fst (play_loops lib ?hk speed evs (nat (max 1 n)) (?m1, ?w1)))) = out ?w1 @ ys"
      by blast
    with assms fm Inr show ?thesis by (simp add: Macro_play_def Macro_first_xy_def)
  qed
qed

lemma Macro_play_no_move:
  assumes "events m = PList evs" "\<forall>ev \<in> set evs. \<not> is_positional ev"
  shows "\<exists>new. out (snd (fst (Macro_play lib speed loops hk (m, w)))) = out w @ new \<and>
     (\<forall>x y. SetPos x y \<notin> set new)"
proof (cases "evs = []")
  case True
  with assms show ?thesis by (simp add: Macro_play_def)
next
  case ne: False
  let ?m1 = "m\<lparr> stop_flag := False \<rparr>"
  let ?hk = "case hk of None \<Rightarrow> [] | Some ks \<Rightarrow> ks"
  show ?thesis
  proof (cases "first_xy_from lib evs")
    case (Inl e)
    with assms ne show ?thesis by (simp add: Macro_play_def Macro_first_xy_def)
  next
    case (Inr first)
    with first_xy_from_nonpositional[OF assms(2), of lib] have f: "first = None"
      by (cases first) auto
    show ?thesis
    proof (cases "py_int (int_of_str lib) loops")
      case (Inl e)
      with assms ne Inr f show ?thesis
        by (simp add: Macro_play_def Macro_first_xy_def first_move_def)
    next
      case n: (Inr n)
      from play_loops_out[of lib ?hk speed evs "nat (max 1 n)" ?m1 w] obtain ys where
        ys: "out (snd (fst (play_loops lib ?hk speed evs (nat (max 1 n)) (?m1, w)))) = out w @ ys"
          "set ys \<subseteq> set (pass_cmds lib ?hk speed evs)"
        by blast
      from ys(2) pass_no_setpos[OF assms(2), of _ _ lib ?hk speed]
      have "\<forall>x y. SetPos x y \<notin> set ys" by blast
      with ys(1) assms ne Inr f n show ?thesis
        by (simp add: Macro_play_def Macro_first_xy_def first_move_def)
    qed
  qed
qed

lemma py_get_is_dict: "py_get e k d = Inr v \<Longrightarrow> is_dict e"
  by (cases e) (simp_all add: is_dict_def)

lemma is_dict_py_get: "is_dict e \<Longrightarrow> \<exists>v. py_get e k d = Inr v"
  by (cases e) (simp_all add: is_dict_def)

lemma first_xy_from_found:
  assumes "\<forall>e \<in> set pre. is_dict e \<and> \<not> is_positional e" "is_positional ev"
    "get_xy lib ev = Inr xy"
  shows "first_xy_from lib (pre @ ev # post) = Inr (Some xy)"
  using assms(1)
proof (induction pre)
  case Nil
  from assms(2) obtain ty where "py_get ev ''type'' PNone = Inr ty" "positional ty"
    by (auto simp: is_positional_def split: sum.splits)
  with assms(3) show ?case by simp
next
  case (Cons e pre)
  then have d: "is_dict e" and np: "\<not> is_positional e" by simp_all
  from is_dict_py_get[OF d] obtain ty where ty: "py_get e ''type'' PNone = Inr ty" by blast
  with np have "\<not> positional ty" by (simp add: is_positional_def)
  with ty Cons show ?case by simp
qed

lemma first_xy_from_Some_dict:
  "first_xy_from lib evs = Inr (Some xy) \<Longrightarrow>
     \<exists>pre ev post. evs = pre @ ev # post \<and> (\<forall>e \<in> set pre. is_dict e \<and> \<not> is_positional e) \<and>
       is_positional ev \<and> get_xy lib ev = Inr xy"
proof (induction evs)
  case Nil
  then show ?case by simp
next
  case (Cons ev evs)
  from Cons.prems obtain ty where ty: "py_get ev ''type'' PNone = Inr ty"
    by (auto simp: bind_err_eq_Inr)
  show ?case
  proof (cases "positional ty")
    case True
    with Cons.prems ty have "get_xy lib ev = Inr xy" by (auto simp: bind_err_eq_Inr)
    with ty True show ?thesis
      by (intro exI[of _ "[]"] exI[of _ ev] exI[of _ evs]) (simp add: is_positional_def)
  next
    case False
    with Cons.prems ty have "first_xy_from lib evs = Inr (Some xy)" by simp
    from Cons.IH[OF this] obtain pre e post where
      "evs = pre @ e # post" "\<forall>e \<in> set pre. is_dict e \<and> \<not> is_positional e" "is_positional e"
      "get_xy lib e = Inr xy" by blast
    with ty False py_get_is_dict[OF ty] show ?thesis
      by (intro exI[of _ "ev # pre"] exI[of _ e] exI[of _ post]) (simp add: is_positional_def)
  qed
qed

lemma first_xy_from_iff:
  "first_xy_from lib evs = Inr (Some (x, y)) \<longleftrightarrow>
     (\<exists>pre ev post. evs = pre @ ev # post \<and> (\<forall>e \<in> set pre. is_dict e \<and> \<not> is_positional e) \<and>
        is_positional ev \<and> get_xy lib ev = Inr (x, y))"
  using first_xy_from_Some_dict[of lib evs "(x, y)"] first_xy_from_found[of _ _ lib "(x, y)"]
  by blast

lemma Macro_play_moves_to_first:
  assumes "events m = PList (pre @ ev # post)"
    "\<forall>e \<in> set pre. is_dict e \<and> \<not> is_positional e" "is_positional ev"
    "get_xy lib ev = Inr (x, y)" "\<not> refused lib (SetPos x y)"
  shows "\<exists>rest. out (snd (fst (Macro_play lib speed loops hk (m, w)))) = out w @ SetPos x y # rest"
  using Macro_play_starts_with_move[of m "pre @ ev # post" lib x y speed loops hk w]
    first_xy_from_found[OF assms(2,3,4), of post] assms(1,5)
  by simp

text \<open>
  Claim C8. \<^verbatim>\<open>_first_xy\<close> finds a position exactly when the sequence has a positional
  event whose coordinates convert to integers and every event before it is a record that
  is not positional; the position is that of the first such event. When it does, and the
  device accepts the move, the first thing \<^verbatim>\<open>play\<close> does to the outside, before any
  sleep and before any event, is to move the pointer there. When no event is positional,
  nothing \<^verbatim>\<open>play\<close> does is a pointer move.
\<close>

theorem pointer_moved_to_first_positional_event:
  "(first_xy_from lib evs = Inr (Some (x, y)) \<longleftrightarrow>
      (\<exists>pre ev post. evs = pre @ ev # post \<and> (\<forall>e \<in> set pre. is_dict e \<and> \<not> is_positional e) \<and>
         is_positional ev \<and> get_xy lib ev = Inr (x, y)))
   \<and> (events m = PList (pre @ ev # post) \<and> (\<forall>e \<in> set pre. is_dict e \<and> \<not> is_positional e)
        \<and> is_positional ev \<and> get_xy lib ev = Inr (x, y) \<and> \<not> refused lib (SetPos x y) \<longrightarrow>
        (\<exists>rest. out (snd (fst (Macro_play lib speed loops hk (m, w))))
                  = out w @ SetPos x y # rest))
   \<and> (events m = PList evs \<and> (\<forall>ev \<in> set evs. \<not> is_positional ev) \<longrightarrow>
        (\<exists>new. out (snd (fst (Macro_play lib speed loops hk (m, w)))) = out w @ new \<and>
           (\<forall>x y. SetPos x y \<notin> set new)))"
  using first_xy_from_iff[of lib evs x y]
    Macro_play_moves_to_first[of m pre ev post lib x y speed loops hk w]
    Macro_play_no_move[of m evs lib speed loops hk w]
  by blast

lemma Macro_play_clears_flag:
  "py_truthy (events m) \<Longrightarrow>
     Macro_play lib speed loops hk (m\<lparr> stop_flag := b \<rparr>, w) =
     Macro_play lib speed loops hk (m\<lparr> stop_flag := False \<rparr>, w)"
  by (simp add: Macro_play_def)

lemma Macro_play_aborted_at_once:
  assumes "events m = PList evs" "evs \<noteq> []" "first_xy_from lib evs = Inr first"
    "first_move lib first w = (w1, None)" "py_int (int_of_str lib) loops = Inr n"
    "abort_in m = Some 0"
  shows "Macro_play lib speed loops hk (m, w) =
     ((m\<lparr> stop_flag := True, abort_in := None \<rparr>, w1), None)"
proof -
  obtain k where k: "nat (max 1 n) = Suc k" by (cases "nat (max 1 n)") auto
  with assms show ?thesis
    by (simp add: Macro_play_def Macro_first_xy_def is_set_def)
qed

text \<open>
  Claim C9. \<^verbatim>\<open>play\<close> on a non-empty sequence clears the stop flag before it polls it: a
  playback that starts with the flag set by an earlier \<^verbatim>\<open>abort_playback\<close> runs exactly
  as one that starts with the flag clear, and, when nobody aborts while it runs and every
  event plays cleanly, it plays all the passes. An abort that arrives once the playback
  has started takes effect at the next poll: when it arrives before the first poll, only
  the first pointer move has happened.
\<close>

theorem stale_abort_is_discarded:
  "(py_truthy (events m) \<longrightarrow>
      Macro_play lib speed loops hk (Macro_abort_playback m, w) =
      Macro_play lib speed loops hk (m\<lparr> stop_flag := False \<rparr>, w))
   \<and> (events m = PList evs \<and> evs \<noteq> [] \<and> (\<forall>ev \<in> set evs. plays_cleanly lib hk' speed ev)
        \<and> py_int (int_of_str lib) loops = Inr n \<and> abort_in m = None \<longrightarrow>
       Macro_play lib speed loops (Some hk') (Macro_abort_playback m, w) =
         ((m\<lparr> stop_flag := False \<rparr>,
           w\<lparr> out := out w @ first_cmds lib evs @
                concat (replicate (nat (max 1 n)) (pass_cmds lib hk' speed evs)) \<rparr>),
          None))
   \<and> (events m = PList evs \<and> evs \<noteq> [] \<and> first_xy_from lib evs = Inr first
        \<and> first_move lib first w = (w1, None) \<and> py_int (int_of_str lib) loops = Inr n
        \<and> abort_in m = Some 0 \<longrightarrow>
       Macro_play lib speed loops hk (m, w) =
         ((m\<lparr> stop_flag := True, abort_in := None \<rparr>, w1), None))"
proof -
  have a: "py_truthy (events m) \<longrightarrow>
      Macro_play lib speed loops hk (Macro_abort_playback m, w) =
      Macro_play lib speed loops hk (m\<lparr> stop_flag := False \<rparr>, w)"
    using Macro_play_clears_flag[of m lib speed loops hk True w]
    by (simp add: Macro_abort_playback_def)
  have b: "events m = PList evs \<and> evs \<noteq> [] \<and> (\<forall>ev \<in> set evs. plays_cleanly lib hk' speed ev)
        \<and> py_int (int_of_str lib) loops = Inr n \<and> abort_in m = None \<longrightarrow>
       Macro_play lib speed loops (Some hk') (Macro_abort_playback m, w) =
         ((m\<lparr> stop_flag := False \<rparr>,
           w\<lparr> out := out w @ first_cmds lib evs @
                concat (replicate (nat (max 1 n)) (pass_cmds lib hk' speed evs)) \<rparr>),
          None)"
    using Macro_play_clean[of "Macro_abort_playback m" evs lib hk' speed loops n w]
    by (simp add: Macro_abort_playback_def)
  from a b Macro_play_aborted_at_once[of m evs lib first w w1 loops n speed hk]
  show ?thesis by blast
qed

lemma ev_cmds_move:
  "ev_cmds demo_lib hk (PFloat 2) move_event = ([Sleep (1 / 4), SetPos 1 2], None)"
  by (simp add: ev_cmds_def scaled_delay_def act_cmds_def move_cmds_def ev_xy_def py_truediv_def
      divisor_def demo_lib_def move_event_def)

lemma ev_cmds_key:
  "ev_cmds demo_lib hk (PFloat 2) key_event = ([KeyPress (KChar (PStr ''a''))], None)"
  by (simp add: ev_cmds_def scaled_delay_def act_cmds_def key_cmds_def resolve_key_def
      py_truediv_def divisor_def demo_lib_def key_event_def)

lemma demo_refused: "\<not> refused demo_lib c"
  by (cases c) (simp_all add: demo_lib_def)

lemma demo_device: "device_fails demo_lib c = False"
  by (simp add: demo_lib_def)

lemma demo_clean:
  "plays_cleanly demo_lib hk (PFloat 2) move_event"
  "plays_cleanly demo_lib hk (PFloat 2) key_event"
  by (simp_all add: plays_cleanly_def ev_cmds_move ev_cmds_key demo_device)

lemma demo_first_xy: "first_xy_from demo_lib [move_event, key_event] = Inr (Some (1, 2))"
  by (simp add: positional_def get_xy_def move_event_def demo_lib_def)

lemma demo_first_cmds: "first_cmds demo_lib [move_event, key_event] = [SetPos 1 2]"
  by (simp add: first_cmds_def demo_first_xy del: first_xy_from.simps)

lemma demo_scaled:
  "scaled_delay demo_lib (PFloat 2) move_event = Inr (1 / 4)"
  "scaled_delay demo_lib (PFloat (- 2)) move_event = Inr 500"
  "scaled_delay demo_lib (PInt 0) move_event = Inr 500"
  by (simp_all add: scaled_delay_def py_truediv_def divisor_def demo_lib_def move_event_def)

lemma demo_get_xy: "get_xy demo_lib move_event = Inr (1, 2)"
  by (simp add: get_xy_def move_event_def demo_lib_def)

lemma demo_is_dict: "is_dict key_event"
  by (simp add: is_dict_def key_event_def)

lemma demo_positional: "is_positional move_event" "\<not> is_positional key_event"
  by (simp_all add: is_positional_def positional_def move_event_def key_event_def)

text \<open>
  The sample macro, a move and a key press, played at speed 2 with a loop count of 0:
  one pass, the half second of the move scaled to a quarter. At speed -2 the divisor is
  one thousandth.
\<close>

theorem speed_clamped_loops_at_least_one_witness:
  "py_get move_event ''t'' (PInt 0) = Inr (PFloat (1 / 2))
   \<and> py_float (float_of_str demo_lib) (PFloat (1 / 2)) = Inr (1 / 2)
   \<and> py_float (float_of_str demo_lib) (PFloat (- 2)) = Inr (- 2)
   \<and> divisor (- 2) = 1 / 1000
   \<and> scaled_delay demo_lib (PFloat (- 2)) move_event = Inr ((1 / 2) / divisor (- 2))
   \<and> scaled_delay demo_lib (PFloat 2) move_event = Inr (1 / 4)
   \<and> fst (ev_cmds demo_lib control_hotkeys (PFloat 2) move_event)
        = (if 0 < (1 / 4 :: real) then [Sleep (1 / 4)] else [])
            @ fst (act_cmds demo_lib control_hotkeys move_event)
   \<and> plays_cleanly demo_lib control_hotkeys (PFloat 2) move_event
   \<and> plays_cleanly demo_lib control_hotkeys (PFloat 2) key_event
   \<and> py_int (int_of_str demo_lib) (PInt 0) = Inr 0
   \<and> abort_in demo_macro = None
   \<and> Macro_play demo_lib (PFloat 2) (PInt 0) (Some control_hotkeys) (demo_macro, demo_world) =
        Macro_play demo_lib (PFloat 2) (PInt 1) (Some control_hotkeys) (demo_macro, demo_world)
   \<and> Macro_play demo_lib (PFloat 2) (PInt 0) (Some control_hotkeys) (demo_macro, demo_world) =
        ((demo_macro\<lparr> stop_flag := False \<rparr>,
          demo_world\<lparr> out := [SetPos 1 2, Sleep (1 / 4), SetPos 1 2,
                                KeyPress (KChar (PStr ''a''))] \<rparr>),
         None)"
proof -
  have h: "events demo_macro = PList [move_event, key_event]" "[move_event, key_event] \<noteq> []"
    "\<forall>ev \<in> set [move_event, key_event]. plays_cleanly demo_lib control_hotkeys (PFloat 2) ev"
    "py_int (int_of_str demo_lib) (PInt 0) = Inr 0" "abort_in demo_macro = None" "(0::int) < 1"
    by (simp_all add: demo_macro_def Macro_init_def demo_clean)
  have g: "py_get move_event ''t'' (PInt 0) = Inr (PFloat (1 / 2))"
    "py_float (float_of_str demo_lib) (PFloat (1 / 2)) = Inr (1 / 2)"
    "py_float (float_of_str demo_lib) (PFloat (- 2)) = Inr (- 2)"
    by (simp_all add: move_event_def)
  have c: "out demo_world @ first_cmds demo_lib [move_event, key_event] @
      concat (replicate (nat (max 1 0))
        (pass_cmds demo_lib control_hotkeys (PFloat 2) [move_event, key_event]))
      = [SetPos 1 2, Sleep (1 / 4), SetPos 1 2, KeyPress (KChar (PStr ''a''))]"
    by (simp add: demo_first_cmds pass_cmds_def ev_cmds_move ev_cmds_key demo_world_def)
  note u = speed_clamped_loops_at_least_one[where s = "- 2" and lib = demo_lib
      and speed = "PFloat (- 2)" and ev = move_event and t = "(1 / 2) / divisor (- 2)"]
  from u have d: "divisor (- 2) = 1 / 1000" by simp
  from u g have s1: "scaled_delay demo_lib (PFloat (- 2)) move_event = Inr ((1 / 2) / divisor (- 2))"
    by blast
  note t = speed_clamped_loops_at_least_one[where s = 2 and lib = demo_lib and speed = "PFloat 2"
      and ev = move_event and t = "1 / 4" and n = 0
      and hk' = "Some control_hotkeys" and st = "(demo_macro, demo_world)" and m = demo_macro
      and evs = "[move_event, key_event]" and hk = control_hotkeys and loops = "PInt 0"
      and w = demo_world]
  from t demo_scaled(1)
  have s2: "fst (ev_cmds demo_lib control_hotkeys (PFloat 2) move_event)
        = (if 0 < (1 / 4 :: real) then [Sleep (1 / 4)] else [])
            @ fst (act_cmds demo_lib control_hotkeys move_event)"
    by blast
  from t h(6) have e: "Macro_play demo_lib (PFloat 2) (PInt 0) (Some control_hotkeys)
      (demo_macro, demo_world) =
      Macro_play demo_lib (PFloat 2) (PInt 1) (Some control_hotkeys) (demo_macro, demo_world)"
    by blast
  from t h have "Macro_play demo_lib (PFloat 2) (PInt 0) (Some control_hotkeys)
      (demo_macro, demo_world) =
      ((demo_macro\<lparr> stop_flag := False \<rparr>,
        demo_world\<lparr> out := out demo_world @ first_cmds demo_lib [move_event, key_event] @
          concat (replicate (nat (max 1 0))
            (pass_cmds demo_lib control_hotkeys (PFloat 2) [move_event, key_event])) \<rparr>),
       None)"
    by blast
  then have r: "Macro_play demo_lib (PFloat 2) (PInt 0) (Some control_hotkeys)
      (demo_macro, demo_world) =
      ((demo_macro\<lparr> stop_flag := False \<rparr>,
        demo_world\<lparr> out := [SetPos 1 2, Sleep (1 / 4), SetPos 1 2,
                              KeyPress (KChar (PStr ''a''))] \<rparr>),
       None)"
    by (simp only: c)
  from g d s1 demo_scaled(1) s2 demo_clean[of control_hotkeys] h(4,5) e r show ?thesis
    by (intro conjI)
qed

text \<open>
  The macro with a key press followed by a move starts with a move to (1, 2); the macro
  with the key press alone moves nothing.
\<close>

theorem pointer_moved_to_first_positional_event_witness:
  "events key_then_move = PList ([key_event] @ move_event # [])
   \<and> is_dict key_event \<and> \<not> is_positional key_event
   \<and> is_positional move_event
   \<and> get_xy demo_lib move_event = Inr (1, 2)
   \<and> \<not> refused demo_lib (SetPos 1 2)
   \<and> first_xy_from demo_lib ([key_event] @ move_event # []) = Inr (Some (1, 2))
   \<and> (\<exists>rest. out (snd (fst (Macro_play demo_lib (PFloat 2) (PInt 1) None
                                 (key_then_move, demo_world))))
          = out demo_world @ SetPos 1 2 # rest)
   \<and> events keys_macro = PList [key_event]
   \<and> (\<exists>new. out (snd (fst (Macro_play demo_lib (PFloat 2) (PInt 1) None (keys_macro, demo_world))))
          = out demo_world @ new \<and> (\<forall>x y. SetPos x y \<notin> set new))"
proof -
  have h: "events key_then_move = PList ([key_event] @ move_event # [])"
    "\<forall>e \<in> set [key_event]. is_dict e \<and> \<not> is_positional e"
    "events keys_macro = PList [key_event]"
    "\<forall>ev \<in> set [key_event]. \<not> is_positional ev"
    by (simp_all add: key_then_move_def keys_macro_def Macro_init_def demo_positional demo_is_dict)
  note t = pointer_moved_to_first_positional_event[where m = key_then_move and lib = demo_lib
      and pre = "[key_event]" and ev = move_event and post = "[]"
      and evs = "[key_event] @ move_event # []" and x = 1 and y = 2 and speed = "PFloat 2"
      and loops = "PInt 1" and hk = None and w = demo_world]
  from t h(1,2) demo_positional(1) demo_get_xy demo_refused
  have 1: "\<exists>rest. out (snd (fst (Macro_play demo_lib (PFloat 2) (PInt 1) None
                                 (key_then_move, demo_world))))
          = out demo_world @ SetPos 1 2 # rest"
    by blast
  from t h(2) demo_positional(1) demo_get_xy
  have 2: "first_xy_from demo_lib ([key_event] @ move_event # []) = Inr (Some (1, 2))"
    by blast
  from pointer_moved_to_first_positional_event[where m = keys_macro and lib = demo_lib
      and evs = "[key_event]" and speed = "PFloat 2"
      and loops = "PInt 1" and hk = None and w = demo_world] h(3,4)
  have 3: "\<exists>new. out (snd (fst (Macro_play demo_lib (PFloat 2) (PInt 1) None (keys_macro, demo_world))))
          = out demo_world @ new \<and> (\<forall>x y. SetPos x y \<notin> set new)"
    by blast
  from h(1,3) demo_is_dict demo_positional demo_get_xy demo_refused 1 2 3 show ?thesis
    by (intro conjI)
qed

text \<open>
  The sample macro played after an abort runs in full; with an abort on its way to the
  first poll it stops after the first pointer move.
\<close>

theorem stale_abort_is_discarded_witness:
  "py_truthy (events demo_macro)
   \<and> stop_flag (Macro_abort_playback demo_macro)
   \<and> Macro_play demo_lib (PFloat 2) (PInt 1) (Some control_hotkeys)
        (Macro_abort_playback demo_macro, demo_world) =
      Macro_play demo_lib (PFloat 2) (PInt 1) (Some control_hotkeys)
        (demo_macro\<lparr> stop_flag := False \<rparr>, demo_world)
   \<and> Macro_play demo_lib (PFloat 2) (PInt 1) (Some control_hotkeys)
        (Macro_abort_playback demo_macro, demo_world) =
        ((demo_macro\<lparr> stop_flag := False \<rparr>,
          demo_world\<lparr> out := [SetPos 1 2, Sleep (1 / 4), SetPos 1 2,
                                KeyPress (KChar (PStr ''a''))] \<rparr>),
         None)
   \<and> abort_in (demo_macro\<lparr> abort_in := Some 0 \<rparr>) = Some 0
   \<and> Macro_play demo_lib (PFloat 2) (PInt 1) (Some control_hotkeys)
        (demo_macro\<lparr> abort_in := Some 0 \<rparr>, demo_world) =
        ((demo_macro\<lparr> abort_in := Some 0 \<rparr>\<lparr> stop_flag := True, abort_in := None \<rparr>,
          demo_world\<lparr> out := [SetPos 1 2] \<rparr>), None)"
proof -
  have h: "events demo_macro = PList [move_event, key_event]" "[move_event, key_event] \<noteq> []"
    "\<forall>ev \<in> set [move_event, key_event]. plays_cleanly demo_lib control_hotkeys (PFloat 2) ev"
    "py_int (int_of_str demo_lib) (PInt 1) = Inr 1" "abort_in demo_macro = None"
    by (simp_all add: demo_macro_def Macro_init_def demo_clean)
  have p: "py_truthy (events demo_macro)" "stop_flag (Macro_abort_playback demo_macro)"
    by (simp_all add: demo_macro_def Macro_init_def Macro_abort_playback_def)
  have c: "out demo_world @ first_cmds demo_lib [move_event, key_event] @
      concat (replicate (nat (max 1 1))
        (pass_cmds demo_lib control_hotkeys (PFloat 2) [move_event, key_event]))
      = [SetPos 1 2, Sleep (1 / 4), SetPos 1 2, KeyPress (KChar (PStr ''a''))]"
    by (simp add: demo_first_cmds pass_cmds_def ev_cmds_move ev_cmds_key demo_world_def)
  have g: "events (demo_macro\<lparr> abort_in := Some 0 \<rparr>) = PList [move_event, key_event]"
    "first_move demo_lib (Some (1, 2)) demo_world = (demo_world\<lparr> out := [SetPos 1 2] \<rparr>, None)"
    "abort_in (demo_macro\<lparr> abort_in := Some 0 \<rparr>) = Some 0"
    by (simp_all add: demo_macro_def Macro_init_def first_move_def demo_device demo_world_def)
  note t = stale_abort_is_discarded[where m = demo_macro and lib = demo_lib
      and evs = "[move_event, key_event]" and speed = "PFloat 2" and loops = "PInt 1"
      and hk = "Some control_hotkeys" and hk' = control_hotkeys and n = 1 and w = demo_world]
  from t p(1) have 0: "Macro_play demo_lib (PFloat 2) (PInt 1) (Some control_hotkeys)
        (Macro_abort_playback demo_macro, demo_world) =
      Macro_play demo_lib (PFloat 2) (PInt 1) (Some control_hotkeys)
        (demo_macro\<lparr> stop_flag := False \<rparr>, demo_world)"
    by blast
  from t h have "Macro_play demo_lib (PFloat 2) (PInt 1) (Some control_hotkeys)
        (Macro_abort_playback demo_macro, demo_world) =
        ((demo_macro\<lparr> stop_flag := False \<rparr>,
          demo_world\<lparr> out := out demo_world @ first_cmds demo_lib [move_event, key_event] @
            concat (replicate (nat (max 1 1))
              (pass_cmds demo_lib control_hotkeys (PFloat 2) [move_event, key_event])) \<rparr>),
         None)"
    by blast
  then have 1: "Macro_play demo_lib (PFloat 2) (PInt 1) (Some control_hotkeys)
        (Macro_abort_playback demo_macro, demo_world) =
        ((demo_macro\<lparr> stop_flag := False \<rparr>,
          demo_world\<lparr> out := [SetPos 1 2, Sleep (1 / 4), SetPos 1 2,
                                KeyPress (KChar (PStr ''a''))] \<rparr>),
         None)"
    by (simp only: c)
  note u = stale_abort_is_discarded[where m = "demo_macro\<lparr> abort_in := Some 0 \<rparr>"
      and lib = demo_lib and evs = "[move_event, key_event]" and speed = "PFloat 2"
      and loops = "PInt 1" and hk = "Some control_hotkeys" and n = 1 and w = demo_world
      and first = "Some (1, 2)" and ?w1.0 = "demo_world\<lparr> out := [SetPos 1 2] \<rparr>"]
  from u g h(2,4) demo_first_xy
  have 2: "Macro_play demo_lib (PFloat 2) (PInt 1) (Some control_hotkeys)
        (demo_macro\<lparr> abort_in := Some 0 \<rparr>, demo_world) =
        ((demo_macro\<lparr> abort_in := Some 0 \<rparr>\<lparr> stop_flag := True, abort_in := None \<rparr>,
          demo_world\<lparr> out := [SetPos 1 2] \<rparr>), None)"
    by blast
  from 0 1 2 p g(3) show ?thesis by blast
qed

section \<open>Properties of persistence\<close>


lemma Macro_load_cases:
  "files w path = None \<Longrightarrow> Macro_load lib path w m = (m, Some FileNotFoundError)"
  "files w path = Some Denied \<Longrightarrow> Macro_load lib path w m = (m, Some PermissionError)"
  "files w path = Some (Regular body) \<Longrightarrow> json_loads lib body = None \<Longrightarrow>
     Macro_load lib path w m = (m, Some JSONDecodeError)"
  "files w path = Some (Regular body) \<Longrightarrow> json_loads lib body = Some v \<Longrightarrow>
     Macro_load lib path w m = (m\<lparr> events := v \<rparr>, None)"
  by (simp_all add: Macro_load_def read_text_def)

lemma Macro_load_fails_iff:
  "snd (Macro_load lib path w m) \<noteq> None \<longleftrightarrow>
     files w path = None \<or> files w path = Some Denied \<or>
     (\<exists>body. files w path = Some (Regular body) \<and> json_loads lib body = None)"
  by (auto simp: Macro_load_def read_text_def split: option.splits node.splits)

text \<open>
  Claim C2, as the code has it. \<^verbatim>\<open>load\<close> raises exactly when the file is missing, cannot
  be opened, or holds text that is not JSON; the exception reaches the caller and tells
  which of the three it was. Every JSON value is accepted and becomes the events as it
  is: nothing checks that it is a sequence of event records.
\<close>

theorem load_fails_iff_unreadable_or_not_json:
  "(snd (Macro_load lib path w m) \<noteq> None \<longleftrightarrow>
      files w path = None \<or> files w path = Some Denied \<or>
      (\<exists>body. files w path = Some (Regular body) \<and> json_loads lib body = None))
   \<and> (files w path = None \<longrightarrow> Macro_load lib path w m = (m, Some FileNotFoundError))
   \<and> (files w path = Some Denied \<longrightarrow> Macro_load lib path w m = (m, Some PermissionError))
   \<and> (files w path = Some (Regular body) \<and> json_loads lib body = None \<longrightarrow>
        Macro_load lib path w m = (m, Some JSONDecodeError))
   \<and> (files w path = Some (Regular body) \<and> json_loads lib body = Some v \<longrightarrow>
        Macro_load lib path w m = (m\<lparr> events := v \<rparr>, None))"
  using Macro_load_fails_iff[of lib path w m]
    Macro_load_cases(1,2)[where w = w and path = path and lib = lib and m = m]
    Macro_load_cases(3)[where w = w and path = path and lib = lib and m = m and body = body]
    Macro_load_cases(4)[where w = w and path = path and lib = lib and m = m and body = body
      and v = v]
  by blast

lemma demo_files_simps:
  "demo_files ''move.json'' = Some (Regular ''[{\"t\":0.5,\"type\":\"move\",\"x\":1,\"y\":2}]'')"
  "demo_files ''broken.json'' = Some (Regular ''oops'')"
  "demo_files ''blank.json'' = Some (Regular ''[{}]'')"
  "demo_files ''locked.json'' = Some Denied"
  "demo_files ''gone.json'' = None"
  "demo_files ''new.json'' = None"
  "demo_files ''sched.json'' = None"
  by (simp_all add: demo_files_def)

lemma demo_loads:
  "json_loads demo_lib ''[{\"t\":0.5,\"type\":\"move\",\"x\":1,\"y\":2}]'' = Some (PList [move_event])"
  "json_loads demo_lib ''oops'' = None"
  "json_loads demo_lib ''[{}]'' = Some (PList [PDict []])"
  "json_loads demo_lib ''{}'' = Some (PDict [])"
  by (simp_all add: demo_lib_def)

text \<open>
  The four outcomes on the sample files: a missing file, a file that cannot be opened,
  text that is not JSON, and a JSON value that becomes the events.
\<close>

theorem load_fails_iff_unreadable_or_not_json_witness:
  "files demo_world ''gone.json'' = None
   \<and> Macro_load demo_lib ''gone.json'' demo_world Macro_init = (Macro_init, Some FileNotFoundError)
   \<and> files demo_world ''locked.json'' = Some Denied
   \<and> Macro_load demo_lib ''locked.json'' demo_world Macro_init = (Macro_init, Some PermissionError)
   \<and> files demo_world ''broken.json'' = Some (Regular ''oops'')
   \<and> json_loads demo_lib ''oops'' = None
   \<and> Macro_load demo_lib ''broken.json'' demo_world Macro_init = (Macro_init, Some JSONDecodeError)
   \<and> files demo_world ''blank.json'' = Some (Regular ''[{}]'')
   \<and> json_loads demo_lib ''[{}]'' = Some (PList [PDict []])
   \<and> Macro_load demo_lib ''blank.json'' demo_world Macro_init
        = (Macro_init\<lparr> events := PList [PDict []] \<rparr>, None)"
proof -
  have f: "files demo_world ''gone.json'' = None" "files demo_world ''locked.json'' = Some Denied"
    "files demo_world ''broken.json'' = Some (Regular ''oops'')"
    "files demo_world ''blank.json'' = Some (Regular ''[{}]'')"
    by (simp_all add: demo_world_def demo_files_simps)
  from load_fails_iff_unreadable_or_not_json[where lib = demo_lib and path = "''gone.json''"
      and w = demo_world and m = Macro_init] f(1)
  have 1: "Macro_load demo_lib ''gone.json'' demo_world Macro_init
      = (Macro_init, Some FileNotFoundError)"
    by blast
  from load_fails_iff_unreadable_or_not_json[where lib = demo_lib and path = "''locked.json''"
      and w = demo_world and m = Macro_init] f(2)
  have 2: "Macro_load demo_lib ''locked.json'' demo_world Macro_init
      = (Macro_init, Some PermissionError)"
    by blast
  from load_fails_iff_unreadable_or_not_json[where lib = demo_lib and path = "''broken.json''"
      and w = demo_world and m = Macro_init and body = "''oops''"] f(3) demo_loads(2)
  have 3: "Macro_load demo_lib ''broken.json'' demo_world Macro_init
      = (Macro_init, Some JSONDecodeError)"
    by blast
  from load_fails_iff_unreadable_or_not_json[where lib = demo_lib and path = "''blank.json''"
      and w = demo_world and m = Macro_init and body = "''[{}]''" and v = "PList [PDict []]"]
    f(4) demo_loads(3)
  have 4: "Macro_load demo_lib ''blank.json'' demo_world Macro_init
      = (Macro_init\<lparr> events := PList [PDict []] \<rparr>, None)"
    by blast
  from f demo_loads(2,3) 1 2 3 4 show ?thesis
    by (intro conjI)
qed

text \<open>
  A file holding \<^verbatim>\<open>[{}]\<close>, one record with no delay and no type, is not a sequence of
  event records in the sense of the specification, and \<^verbatim>\<open>load\<close> accepts it.
\<close>

theorem load_accepts_unrecognised_records:
  "files demo_world ''blank.json'' = Some (Regular ''[{}]'')
   \<and> json_loads demo_lib ''[{}]'' = Some (PList [PDict []])
   \<and> \<not> spec_event_sequence (PList [PDict []])
   \<and> Macro_load demo_lib ''blank.json'' demo_world Macro_init
        = (Macro_init\<lparr> events := PList [PDict []] \<rparr>, None)"
  by (simp add: demo_world_def demo_files_simps demo_loads Macro_load_def read_text_def
      is_delay_def)

text \<open>
  Claim C10. When \<^verbatim>\<open>load\<close> raises, the macro is exactly as it was; the events are
  replaced only when the file was read and decoded, and then by the decoded value.
\<close>

theorem load_keeps_events_on_failure:
  "(snd (Macro_load lib path w m) \<noteq> None \<longrightarrow> fst (Macro_load lib path w m) = m)
   \<and> (snd (Macro_load lib path w m) = None \<longrightarrow>
        (\<exists>body v. files w path = Some (Regular body) \<and> json_loads lib body = Some v \<and>
           fst (Macro_load lib path w m) = m\<lparr> events := v \<rparr>))"
  by (auto simp: Macro_load_def read_text_def split: option.splits node.splits)

text \<open>
  A failed load of text that is not JSON or of a missing file leaves the sample macro
  untouched; a successful one replaces its events.
\<close>

theorem load_keeps_events_on_failure_witness:
  "snd (Macro_load demo_lib ''broken.json'' demo_world demo_macro) \<noteq> None
   \<and> fst (Macro_load demo_lib ''broken.json'' demo_world demo_macro) = demo_macro
   \<and> snd (Macro_load demo_lib ''gone.json'' demo_world demo_macro) \<noteq> None
   \<and> fst (Macro_load demo_lib ''gone.json'' demo_world demo_macro) = demo_macro
   \<and> snd (Macro_load demo_lib ''blank.json'' demo_world demo_macro) = None
   \<and> (\<exists>body v. files demo_world ''blank.json'' = Some (Regular body) \<and>
         json_loads demo_lib body = Some v \<and>
         fst (Macro_load demo_lib ''blank.json'' demo_world demo_macro)
           = demo_macro\<lparr> events := v \<rparr>)"
proof -
  have f: "snd (Macro_load demo_lib ''broken.json'' demo_world demo_macro) \<noteq> None"
    "snd (Macro_load demo_lib ''gone.json'' demo_world demo_macro) \<noteq> None"
    "snd (Macro_load demo_lib ''blank.json'' demo_world demo_macro) = None"
    by (simp_all add: demo_world_def demo_files_simps demo_loads Macro_load_def read_text_def)
  from load_keeps_events_on_failure[where lib = demo_lib and path = "''broken.json''"
      and w = demo_world and m = demo_macro]
    load_keeps_events_on_failure[where lib = demo_lib and path = "''gone.json''"
      and w = demo_world and m = demo_macro]
    load_keeps_events_on_failure[where lib = demo_lib and path = "''blank.json''"
      and w = demo_world and m = demo_macro]
    f
  show ?thesis by blast
qed

section \<open>Properties of the scheduler\<close>

subsection \<open>Timestamps compare as their strings do\<close>

lemma pad_length [simp]: "length (pad w n) = w"
  by (induction w arbitrary: n) simp_all


















subsection \<open>Listing\<close>










lemma Scheduler_add_table:
  assumes "Scheduler_add lib fresh title d p speed loops uid (s, w) = ((s', w'), Inr u)"
  shows "\<exists>kvs sp lp. sched_events s = PDict kvs \<and>
     sched_events s' = PDict (AList.update u
       (PDict [(''id'', PStr u), (''title'', PStr title), (''when'', PStr (isoformat d)),
               (''macro'', PStr p), (''speed'', PFloat sp), (''loops'', PInt lp)]) kvs)"
proof (cases "sched_events s")
  case (PDict kvs)
  with assms show ?thesis
    apply (cases uid)
     apply (auto simp: Scheduler_add_def Let_def bind_err_eq_Inr split: sum.splits)
     apply blast+
    done
qed (use assms in \<open>auto simp: Scheduler_add_def Let_def bind_err_eq_Inr split: sum.splits\<close>)

lemma Scheduler_add_when:
  assumes "Scheduler_add lib fresh title d p speed loops uid (s, w) = ((s', w'), Inr u)"
  shows "\<exists>kvs e. sched_events s = PDict kvs \<and> sched_events s' = PDict (AList.update u e kvs) \<and>
     has_when e \<and> when_str e = isoformat d"
proof -
  from Scheduler_add_table[OF assms] obtain kvs sp lp where t: "sched_events s = PDict kvs"
    "sched_events s' = PDict (AList.update u
       (PDict [(''id'', PStr u), (''title'', PStr title), (''when'', PStr (isoformat d)),
               (''macro'', PStr p), (''speed'', PFloat sp), (''loops'', PInt lp)]) kvs)"
    by blast
  have "has_when (PDict [(''id'', PStr u), (''title'', PStr title), (''when'', PStr (isoformat d)),
               (''macro'', PStr p), (''speed'', PFloat sp), (''loops'', PInt lp)])"
    "when_str (PDict [(''id'', PStr u), (''title'', PStr title), (''when'', PStr (isoformat d)),
               (''macro'', PStr p), (''speed'', PFloat sp), (''loops'', PInt lp)]) = isoformat d"
    by (simp_all add: has_when_def when_str_def)
  with t show ?thesis by blast
qed








subsection \<open>Construction\<close>

lemma Scheduler_load_try_cases:
  "files w (persist_path s) = None \<Longrightarrow> Scheduler_load_try lib w s = Inl FileNotFoundError"
  "files w (persist_path s) = Some Denied \<Longrightarrow> Scheduler_load_try lib w s = Inl PermissionError"
  "files w (persist_path s) = Some (Regular body) \<Longrightarrow> json_loads lib body = None \<Longrightarrow>
     Scheduler_load_try lib w s = Inl JSONDecodeError"
  "files w (persist_path s) = Some (Regular body) \<Longrightarrow> json_loads lib body = Some v \<Longrightarrow>
     Scheduler_load_try lib w s = Inr (s\<lparr> sched_events := v \<rparr>)"
  by (simp_all add: Scheduler_load_try_def read_text_def bind_err_def)










subsection \<open>The poll cycle\<close>























end
